theory Spec2Isabelle
  imports Complex_Main "HOL-Library.FSet"
begin

text \<open>
  A model of the structure detector, the data cleaner, the date detector and the
  unstructured parser of the validation pipeline, and the proofs of their stated
  properties.

  Conventions of the model:
  \<^item> a raw cell is \<open>None\<close>, a string or an integer; strings are ASCII;
  \<^item> the float arithmetic of scores, confidences and percentages is exact rational
    arithmetic, so a comparison that falls on a threshold exactly is decided exactly,
    where the floats may decide it by their rounding;
  \<^item> a function that may raise returns a sum, the error on the left;
  \<^item> a data frame stores its columns as pandas 1.4 to 2.x does: a column of integers with
    missing cells holds floats, and a replacement by \<open>None\<close> puts \<open>None\<close>;
  \<^item> what pandas and dateutil compute (date and number parsing, sampling) is a parameter
    of the model, and the statements hold for every value of these parameters unless they
    say otherwise.
\<close>

section \<open>Characters and strings\<close>

text \<open>
  Python strings are modelled as \<^typ>\<open>string\<close>; the character classes below are the
  ASCII part of Python's classes (\<open>str.isspace\<close>, \<open>\d\<close>, \<open>\w\<close>, \<open>[A-Z]\<close>, ...), so
  the model is exact on ASCII text.
\<close>

definition is_space :: "char \<Rightarrow> bool" where
  "is_space c = (let n = (of_char c :: nat) in (9 \<le> n \<and> n \<le> 13) \<or> (28 \<le> n \<and> n \<le> 32))"

definition is_digit :: "char \<Rightarrow> bool" where
  "is_digit c = (let n = (of_char c :: nat) in 48 \<le> n \<and> n \<le> 57)"

definition is_upper :: "char \<Rightarrow> bool" where
  "is_upper c = (let n = (of_char c :: nat) in 65 \<le> n \<and> n \<le> 90)"

definition is_lower :: "char \<Rightarrow> bool" where
  "is_lower c = (let n = (of_char c :: nat) in 97 \<le> n \<and> n \<le> 122)"

definition is_alpha :: "char \<Rightarrow> bool" where
  "is_alpha c = (is_upper c \<or> is_lower c)"

definition is_word :: "char \<Rightarrow> bool" where
  "is_word c = (is_alpha c \<or> is_digit c \<or> c = CHR ''_'')"

definition to_lower :: "char \<Rightarrow> char" where
  "to_lower c = (if is_upper c then char_of ((of_char c :: nat) + 32) else c)"

definition to_upper :: "char \<Rightarrow> char" where
  "to_upper c = (if is_lower c then char_of ((of_char c :: nat) - 32) else c)"

definition lower :: "string \<Rightarrow> string" where
  "lower s = map to_lower s"

definition upper :: "string \<Rightarrow> string" where
  "upper s = map to_upper s"

text \<open>\<open>s.strip()\<close> and \<open>s.strip('_')\<close>.\<close>

definition strip_with :: "(char \<Rightarrow> bool) \<Rightarrow> string \<Rightarrow> string" where
  "strip_with p s = rev (dropWhile p (rev (dropWhile p s)))"

definition strip :: "string \<Rightarrow> string" where
  "strip s = strip_with is_space s"

text \<open>\<open>str(n)\<close> for an integer: its decimal rendering.\<close>

definition digit_char :: "nat \<Rightarrow> char" where
  "digit_char d = char_of (48 + d)"

fun show_nat :: "nat \<Rightarrow> string" where
  "show_nat n = (if n < 10 then [digit_char n] else show_nat (n div 10) @ [digit_char (n mod 10)])"

declare show_nat.simps [simp del]

definition show_int :: "int \<Rightarrow> string" where
  "show_int i = (if i < 0 then CHR ''-'' # show_nat (nat (- i)) else show_nat (nat i))"

section \<open>Cells and grids\<close>

text \<open>
  A raw cell is \<open>None\<close>, a string or an integer; a grid is a list of rows, which may
  have different lengths.
\<close>

datatype cell = CNone | CStr string | CInt int

type_synonym grid = "cell list list"

fun py_str :: "cell \<Rightarrow> string" where
  "py_str CNone = ''None''"
| "py_str (CStr s) = s"
| "py_str (CInt i) = show_int i"

text \<open>The test \<open>cell is not None and str(cell).strip()\<close>.\<close>

definition non_empty :: "cell \<Rightarrow> bool" where
  "non_empty c = (c \<noteq> CNone \<and> strip (py_str c) \<noteq> [])"

section \<open>Region finder\<close>

type_synonym pos = "nat \<times> nat"

record region =
  min_row :: nat
  max_row :: nat
  min_col :: nat
  max_col :: nat
  area :: nat
  cells :: "pos list"

text \<open>\<open>cols = max(len(row) for row in data)\<close>, for a grid with at least one row.\<close>

definition num_cols :: "grid \<Rightarrow> nat" where
  "num_cols data = fold max (map length data) 0"

text \<open>
  The boolean matrix \<open>data_matrix\<close> of shape \<open>rows \<times> cols\<close>: entry \<open>(i, j)\<close> is set
  exactly when row \<open>i\<close> has a non-empty cell at column \<open>j\<close>.
\<close>

definition data_matrix :: "grid \<Rightarrow> nat \<Rightarrow> nat \<Rightarrow> bool" where
  "data_matrix data i j = (i < length data \<and> j < length (data ! i) \<and> non_empty (data ! i ! j))"

text \<open>
  The state of the flood fill in \<open>expand_region\<close>: the shared \<open>visited\<close> matrix (as the
  set of its marked positions), the stack (top first), the cells popped so far, and the
  bounding box.
\<close>

record fill =
  f_visited :: "pos set"
  f_stack :: "pos list"
  f_cells :: "pos list"
  f_min_row :: nat
  f_max_row :: nat
  f_min_col :: nat
  f_max_col :: nat

definition directions :: "(int \<times> int) list" where
  "directions = [(0, 1), (1, 0), (0, -1), (-1, 0)]"

text \<open>One iteration of the loop over the four neighbours of the popped cell \<open>p\<close>.\<close>

definition visit :: "(nat \<Rightarrow> nat \<Rightarrow> bool) \<Rightarrow> nat \<Rightarrow> nat \<Rightarrow> pos \<Rightarrow> fill \<Rightarrow> int \<times> int \<Rightarrow> fill" where
  "visit dm rows cols p st d =
     (let nr = int (fst p) + fst d; nc = int (snd p) + snd d in
      if 0 \<le> nr \<and> nr < int rows \<and> 0 \<le> nc \<and> nc < int cols \<and>
         dm (nat nr) (nat nc) \<and> (nat nr, nat nc) \<notin> f_visited st
      then st\<lparr>f_visited := insert (nat nr, nat nc) (f_visited st),
              f_stack := (nat nr, nat nc) # f_stack st,
              f_min_row := min (f_min_row st) (nat nr),
              f_max_row := max (f_max_row st) (nat nr),
              f_min_col := min (f_min_col st) (nat nc),
              f_max_col := max (f_max_col st) (nat nc)\<rparr>
      else st)"

definition unvisited :: "(nat \<Rightarrow> nat \<Rightarrow> bool) \<Rightarrow> nat \<Rightarrow> nat \<Rightarrow> pos set \<Rightarrow> pos set" where
  "unvisited dm rows cols V = {(r, c). r < rows \<and> c < cols \<and> dm r c} - V"

lemma finite_unvisited: "finite (unvisited dm rows cols V)"
proof -
  have "unvisited dm rows cols V \<subseteq> {..<rows} \<times> {..<cols}"
    by (auto simp: unvisited_def)
  then show ?thesis
    by (rule finite_subset) simp
qed

lemma visit_measure:
  "card (unvisited dm rows cols (f_visited (visit dm rows cols p st d))) + length (f_stack (visit dm rows cols p st d))
   = card (unvisited dm rows cols (f_visited st)) + length (f_stack st)"
proof (cases "visit dm rows cols p st d = st")
  case True
  then show ?thesis by simp
next
  case False
  define q where "q = (nat (int (fst p) + fst d), nat (int (snd p) + snd d))"
  from False have q: "q \<in> unvisited dm rows cols (f_visited st)"
    and v: "f_visited (visit dm rows cols p st d) = insert q (f_visited st)"
    and s: "f_stack (visit dm rows cols p st d) = q # f_stack st"
    by (auto simp: visit_def Let_def q_def unvisited_def split: if_splits)
  have "unvisited dm rows cols (insert q (f_visited st)) = unvisited dm rows cols (f_visited st) - {q}"
    by (auto simp: unvisited_def)
  moreover have "card (unvisited dm rows cols (f_visited st)) > 0"
    using q finite_unvisited [of dm rows cols "f_visited st"] by (auto simp: card_gt_0_iff)
  ultimately show ?thesis
    using q v s finite_unvisited [of dm rows cols "f_visited st"] by simp
qed

lemma visits_measure:
  "card (unvisited dm rows cols (f_visited (foldl (visit dm rows cols p) st ds))) + length (f_stack (foldl (visit dm rows cols p) st ds))
   = card (unvisited dm rows cols (f_visited st)) + length (f_stack st)"
  by (induction ds arbitrary: st) (simp_all add: visit_measure)

text \<open>The \<open>while stack\<close> loop of \<open>expand_region\<close>.\<close>

function flood :: "(nat \<Rightarrow> nat \<Rightarrow> bool) \<Rightarrow> nat \<Rightarrow> nat \<Rightarrow> fill \<Rightarrow> fill" where
  "flood dm rows cols st =
     (case f_stack st of
        [] \<Rightarrow> st
      | p # rest \<Rightarrow>
          flood dm rows cols
            (foldl (visit dm rows cols p) (st\<lparr>f_stack := rest, f_cells := f_cells st @ [p]\<rparr>) directions))"
  by pat_completeness auto
termination
proof (relation "measure (\<lambda>(dm, rows, cols, st). card (unvisited dm rows cols (f_visited st)) + length (f_stack st))")
  show "wf (measure (\<lambda>(dm, rows, cols, st). card (unvisited dm rows cols (f_visited st)) + length (f_stack st)))"
    by simp
next
  fix dm :: "nat \<Rightarrow> nat \<Rightarrow> bool" and rows cols :: nat and st :: fill and p :: pos and rest :: "pos list"
  assume "f_stack st = p # rest"
  then show "((dm, rows, cols, foldl (visit dm rows cols p) (st\<lparr>f_stack := rest, f_cells := f_cells st @ [p]\<rparr>) directions), (dm, rows, cols, st))
      \<in> measure (\<lambda>(dm, rows, cols, st). card (unvisited dm rows cols (f_visited st)) + length (f_stack st))"
    by (simp add: visits_measure)
qed

declare flood.simps [simp del]

definition expand_region :: "(nat \<Rightarrow> nat \<Rightarrow> bool) \<Rightarrow> nat \<Rightarrow> nat \<Rightarrow> pos set \<Rightarrow> pos \<Rightarrow> region \<times> pos set" where
  "expand_region dm rows cols visited start =
     (let st = flood dm rows cols
                 \<lparr>f_visited = insert start visited, f_stack = [start], f_cells = [],
                  f_min_row = fst start, f_max_row = fst start,
                  f_min_col = snd start, f_max_col = snd start\<rparr>
      in (\<lparr>min_row = f_min_row st, max_row = f_max_row st,
           min_col = f_min_col st, max_col = f_max_col st,
           area = length (f_cells st), cells = f_cells st\<rparr>, f_visited st))"

text \<open>The body of the row-major scan in \<open>find_data_regions\<close>, on the pair \<open>(visited, regions)\<close>.\<close>

definition scan_cell :: "(nat \<Rightarrow> nat \<Rightarrow> bool) \<Rightarrow> nat \<Rightarrow> nat \<Rightarrow> pos set \<times> region list \<Rightarrow> pos \<Rightarrow> pos set \<times> region list" where
  "scan_cell dm rows cols s p =
     (if dm (fst p) (snd p) \<and> p \<notin> fst s
      then (let (reg, visited') = expand_region dm rows cols (fst s) p
            in (visited', if area reg > 1 then snd s @ [reg] else snd s))
      else s)"

definition scan_row :: "(nat \<Rightarrow> nat \<Rightarrow> bool) \<Rightarrow> nat \<Rightarrow> nat \<Rightarrow> pos set \<times> region list \<Rightarrow> nat \<Rightarrow> pos set \<times> region list" where
  "scan_row dm rows cols s i = foldl (\<lambda>s j. scan_cell dm rows cols s (i, j)) s [0..<cols]"

definition find_data_regions :: "grid \<Rightarrow> region list" where
  "find_data_regions data =
     (if data = [] then []
      else (let rows = length data; cols = num_cols data
            in snd (foldl (scan_row (data_matrix data) rows cols) ({}, []) [0..<rows])))"

section \<open>Regular expressions\<close>

text \<open>
  The fragment of Python's \<open>re\<close> syntax that the patterns of the repository use, with
  the backtracking semantics of \<open>re\<close> (leftmost match, greedy repetition, ordered
  alternation, numbered groups). Repetition is only ever applied to character classes.
\<close>

datatype rx =
    Emp
  | Cls "char \<Rightarrow> bool"
  | Many "char \<Rightarrow> bool" nat "nat option"
  | Sq rx rx
  | Or rx rx
  | Opt rx
  | Grp nat rx
  | WordB
  | Bol
  | Eol

text \<open>
  A matching context: the character before the current position (for \<open>\b\<close> and \<open>^\<close>),
  the rest of the subject, and the groups captured so far (latest first).
\<close>

type_synonym mctx = "char option \<times> string \<times> (nat \<times> string) list"

fun first_some :: "('a \<Rightarrow> 'b option) \<Rightarrow> 'a list \<Rightarrow> 'b option" where
  "first_some f [] = None"
| "first_some f (x # xs) = (case f x of Some r \<Rightarrow> Some r | None \<Rightarrow> first_some f xs)"

definition advance :: "mctx \<Rightarrow> nat \<Rightarrow> mctx" where
  "advance x n =
     (case x of (prev, s, caps) \<Rightarrow>
        if n = 0 then x else (Some (s ! (n - 1)), drop n s, caps))"

text \<open>Greedy bounded repetition of a class: the longest run first, then shorter ones.\<close>

definition many :: "(char \<Rightarrow> bool) \<Rightarrow> nat \<Rightarrow> nat option \<Rightarrow> mctx \<Rightarrow> (mctx \<Rightarrow> 'a option) \<Rightarrow> 'a option" where
  "many P lo hi x k =
     (let avail = length (takeWhile P (fst (snd x)));
          mx = (case hi of None \<Rightarrow> avail | Some h \<Rightarrow> min h avail)
      in first_some (\<lambda>n. k (advance x n)) (rev [lo..<Suc mx]))"

definition word_at :: "char option \<Rightarrow> bool" where
  "word_at c = (case c of None \<Rightarrow> False | Some a \<Rightarrow> is_word a)"

fun rx_m :: "rx \<Rightarrow> mctx \<Rightarrow> (mctx \<Rightarrow> 'a option) \<Rightarrow> 'a option" where
  "rx_m Emp x k = k x"
| "rx_m (Cls P) x k =
     (case x of (prev, s, caps) \<Rightarrow>
        (case s of [] \<Rightarrow> None | c # cs \<Rightarrow> if P c then k (Some c, cs, caps) else None))"
| "rx_m (Many P lo hi) x k = many P lo hi x k"
| "rx_m (Sq a b) x k = rx_m a x (\<lambda>y. rx_m b y k)"
| "rx_m (Or a b) x k = (case rx_m a x k of Some r \<Rightarrow> Some r | None \<Rightarrow> rx_m b x k)"
| "rx_m (Opt a) x k = (case rx_m a x k of Some r \<Rightarrow> Some r | None \<Rightarrow> k x)"
| "rx_m (Grp n a) x k =
     rx_m a x (\<lambda>y. k (fst y, fst (snd y),
                       (n, take (length (fst (snd x)) - length (fst (snd y))) (fst (snd x))) # snd (snd y)))"
| "rx_m WordB x k = (if word_at (fst x) \<noteq> word_at (case fst (snd x) of [] \<Rightarrow> None | c # _ \<Rightarrow> Some c) then k x else None)"
| "rx_m Bol x k = (if fst x = None then k x else None)"
| "rx_m Eol x k = (if fst (snd x) = [] \<or> fst (snd x) = [char_of (10::nat)] then k x else None)"

text \<open>\<open>re.match\<close> and \<open>re.search\<close>: the captured groups of the first match, if any.\<close>

definition re_match :: "rx \<Rightarrow> string \<Rightarrow> (nat \<times> string) list option" where
  "re_match r s = rx_m r (None, s, []) (\<lambda>y. Some (snd (snd y)))"

definition re_search :: "rx \<Rightarrow> string \<Rightarrow> (nat \<times> string) list option" where
  "re_search r s =
     first_some (\<lambda>i. rx_m r (if i = 0 then None else Some (s ! (i - 1)), drop i s, []) (\<lambda>y. Some (snd (snd y))))
       [0..<Suc (length s)]"

definition matches :: "rx \<Rightarrow> string \<Rightarrow> bool" where
  "matches r s = (re_match r s \<noteq> None)"

definition found :: "rx \<Rightarrow> string \<Rightarrow> bool" where
  "found r s = (re_search r s \<noteq> None)"

text \<open>Pattern builders: a literal, a literal under \<open>(?i)\<close>, a sequence, an alternation.\<close>

definition chr :: "char \<Rightarrow> rx" where
  "chr a = Cls (\<lambda>c. c = a)"

definition chr_ci :: "char \<Rightarrow> rx" where
  "chr_ci a = Cls (\<lambda>c. to_lower c = to_lower a)"

definition one_of :: "string \<Rightarrow> char \<Rightarrow> bool" where
  "one_of cs c = (c \<in> set cs)"

fun sq :: "rx list \<Rightarrow> rx" where
  "sq [] = Emp"
| "sq [r] = r"
| "sq (r # rs) = Sq r (sq rs)"

fun alt :: "rx list \<Rightarrow> rx" where
  "alt [] = Cls (\<lambda>c. False)"
| "alt [r] = r"
| "alt (r # rs) = Or r (alt rs)"

definition lit :: "string \<Rightarrow> rx" where
  "lit s = sq (map chr s)"

definition lit_ci :: "string \<Rightarrow> rx" where
  "lit_ci s = sq (map chr_ci s)"

section \<open>Structure detector\<close>

record config =
  max_scan_rows :: nat
  max_scan_cols :: nat
  min_data_density :: rat
  header_confidence_threshold :: rat

text \<open>The defaults of \<open>PipelineConfig\<close> and the checks of \<open>PipelineConfig.validate\<close>.\<close>

definition default_config :: config where
  "default_config =
     \<lparr>max_scan_rows = 20, max_scan_cols = 20, min_data_density = 3 / 10,
      header_confidence_threshold = 7 / 10\<rparr>"

definition valid_config :: "config \<Rightarrow> bool" where
  "valid_config cfg =
     (1 \<le> max_scan_rows cfg \<and> 1 \<le> max_scan_cols cfg \<and>
      0 \<le> min_data_density cfg \<and> min_data_density cfg \<le> 1 \<and>
      0 \<le> header_confidence_threshold cfg \<and> header_confidence_threshold cfg \<le> 1)"

text \<open>
  Scores and confidences are Python floats in the source; the model computes them as exact
  rationals.
\<close>

definition ratio :: "nat \<Rightarrow> nat \<Rightarrow> rat" where
  "ratio a b = of_nat a / of_nat b"

definition mean :: "rat list \<Rightarrow> rat" where
  "mean xs = sum_list xs / of_nat (length xs)"

subsection \<open>Cell types\<close>

text \<open>
  \<open>float(s)\<close> for a string: the grammar of Python's float literals in strings, with the
  value as an exact rational (\<open>None\<close> when \<open>float\<close> raises \<open>ValueError\<close>).
\<close>

datatype pyfloat = Finite rat | Infinite | NaN

text \<open>After a first digit: the digits of \<open>(["_"] digit)*\<close>, and the rest of the string.\<close>

fun digit_run :: "string \<Rightarrow> string \<times> string" where
  "digit_run [] = ([], [])"
| "digit_run [c] = (if is_digit c then ([c], []) else ([], [c]))"
| "digit_run (c # d # cs) =
     (if is_digit c then (case digit_run (d # cs) of (ds, r) \<Rightarrow> (c # ds, r))
      else if c = CHR ''_'' \<and> is_digit d then (case digit_run cs of (ds, r) \<Rightarrow> (d # ds, r))
      else ([], c # d # cs))"

definition digitpart :: "string \<Rightarrow> (string \<times> string) option" where
  "digitpart s =
     (case s of
        [] \<Rightarrow> None
      | c # cs \<Rightarrow> if is_digit c then (case digit_run cs of (ds, r) \<Rightarrow> Some (c # ds, r)) else None)"

definition digits_value :: "string \<Rightarrow> nat" where
  "digits_value s = foldl (\<lambda>a c. 10 * a + ((of_char c :: nat) - 48)) 0 s"

text \<open>\<open>[digitpart] "." digitpart | digitpart ["."]\<close>: integer digits, fraction digits, rest.\<close>

definition number_part :: "string \<Rightarrow> (string \<times> string \<times> string) option" where
  "number_part s =
     (case digitpart s of
        Some (ip, r) \<Rightarrow>
          (case r of
             [] \<Rightarrow> Some (ip, [], [])
           | c # cs \<Rightarrow>
               if c = CHR ''.''
               then (case digitpart cs of Some (fp, r2) \<Rightarrow> Some (ip, fp, r2) | None \<Rightarrow> Some (ip, [], cs))
               else Some (ip, [], r))
      | None \<Rightarrow>
          (case s of
             [] \<Rightarrow> None
           | c # cs \<Rightarrow>
               if c = CHR ''.''
               then (case digitpart cs of Some (fp, r2) \<Rightarrow> Some ([], fp, r2) | None \<Rightarrow> None)
               else None))"

text \<open>The optional exponent, which must end the string.\<close>

definition exponent_part :: "string \<Rightarrow> int option" where
  "exponent_part r =
     (case r of
        [] \<Rightarrow> Some 0
      | c # cs \<Rightarrow>
          if c = CHR ''e'' \<or> c = CHR ''E''
          then (case cs of
                  [] \<Rightarrow> None
                | d # ds \<Rightarrow>
                    (case digitpart (if d = CHR ''+'' \<or> d = CHR ''-'' then ds else cs) of
                       Some (ep, []) \<Rightarrow> Some (if d = CHR ''-'' then - int (digits_value ep) else int (digits_value ep))
                     | _ \<Rightarrow> None))
          else None)"

definition pow10 :: "int \<Rightarrow> rat" where
  "pow10 k = (if 0 \<le> k then 10 ^ nat k else 1 / 10 ^ nat (- k))"

definition py_float :: "string \<Rightarrow> pyfloat option" where
  "py_float s =
     (let t = strip s;
          neg = (t \<noteq> [] \<and> hd t = CHR ''-'');
          u = (if t \<noteq> [] \<and> (hd t = CHR ''+'' \<or> hd t = CHR ''-'') then tl t else t)
      in if lower u \<in> set [''inf'', ''infinity''] then Some Infinite
         else if lower u = ''nan'' then Some NaN
         else (case number_part u of
                 None \<Rightarrow> None
               | Some (ip, fp, r) \<Rightarrow>
                   (case exponent_part r of
                      None \<Rightarrow> None
                    | Some e \<Rightarrow>
                        Some (Finite ((if neg then - 1 else 1) * of_nat (digits_value (ip @ fp))
                                        * pow10 (e - int (length fp)))))))"

datatype cell_type = TEmpty | TNumber | TDate | TText

text \<open>The two \<open>date_patterns\<close> of \<open>get_cell_type\<close>, used with \<open>re.search\<close>.\<close>

definition cell_date_patterns :: "rx list" where
  "cell_date_patterns =
     [sq [Many is_digit 1 (Some 2), Cls (one_of ''/-''), Many is_digit 1 (Some 2), Cls (one_of ''/-''),
          Many is_digit 2 (Some 4)],
      sq [Many is_digit 4 (Some 4), Cls (one_of ''/-''), Many is_digit 1 (Some 2), Cls (one_of ''/-''),
          Many is_digit 1 (Some 2)]]"

definition get_cell_type :: "cell \<Rightarrow> cell_type" where
  "get_cell_type c =
     (if c = CNone \<or> (case c of CStr s \<Rightarrow> strip s = [] | _ \<Rightarrow> False) then TEmpty
      else if py_float (py_str c) \<noteq> None then TNumber
      else if list_ex (\<lambda>p. found p (py_str c)) cell_date_patterns then TDate
      else TText)"

subsection \<open>Header detection\<close>

definition calculate_type_difference :: "cell list \<Rightarrow> cell list \<Rightarrow> rat" where
  "calculate_type_difference row1 row2 =
     (if row1 = [] \<or> row2 = [] then 0
      else (let min_len = min (length row1) (length row2);
                differences = length (filter (\<lambda>(a, b).
                    get_cell_type a \<noteq> get_cell_type b \<and> get_cell_type a \<noteq> TEmpty \<and> get_cell_type b \<noteq> TEmpty)
                  (zip row1 row2))
            in ratio differences min_len))"

definition is_text_cell :: "cell \<Rightarrow> bool" where
  "is_text_cell c = (case c of CStr s \<Rightarrow> strip s \<noteq> [] | _ \<Rightarrow> False)"

text \<open>The three \<open>header_patterns\<close>, used with \<open>re.search\<close>.\<close>

definition header_patterns :: "rx list" where
  "header_patterns =
     [sq [Bol, Cls is_upper],
      alt (map lit_ci [''name'', ''id'', ''date'', ''time'', ''value'', ''amount'', ''total'', ''count'',
                       ''type'', ''status'']),
      alt (map lit_ci [''description'', ''category'', ''code'', ''number'', ''qty'', ''quantity'',
                       ''price''])]"

definition score_header_row :: "cell list \<Rightarrow> cell list list \<Rightarrow> rat" where
  "score_header_row row following_rows =
     (if row = [] then 0
      else (let text_cells = length (filter is_text_cell row);
                non_empty_cells = filter non_empty row;
                pattern_matches = length (filter (\<lambda>c. list_ex (\<lambda>p. found p (py_str c)) header_patterns)
                                            non_empty_cells);
                scores = [ratio text_cells (length row)]
                  @ (if non_empty_cells \<noteq> []
                     then [ratio (length (remdups (map py_str non_empty_cells))) (length non_empty_cells)]
                     else [])
                  @ (if non_empty_cells \<noteq> [] then [ratio pattern_matches (length non_empty_cells)] else [])
                  @ (if following_rows \<noteq> [] then [calculate_type_difference row (hd following_rows)] else [])
            in mean scores))"

text \<open>The loop body of \<open>find_header_row\<close>, on the pair \<open>(max_score, best_index)\<close>.\<close>

definition header_step :: "config \<Rightarrow> cell list list \<Rightarrow> rat \<times> nat option \<Rightarrow> nat \<Rightarrow> rat \<times> nat option" where
  "header_step cfg data s i =
     (let score = score_header_row (data ! i) (drop (i + 1) data)
      in if score > fst s \<and> score > header_confidence_threshold cfg then (score, Some i) else s)"

definition find_header_row :: "config \<Rightarrow> cell list list \<Rightarrow> nat option" where
  "find_header_row cfg data =
     snd (foldl (header_step cfg data) (0, None) [0..<min (max_scan_rows cfg) (length data)])"

subsection \<open>Table test\<close>

definition calculate_row_consistency :: "cell list \<Rightarrow> nat list \<Rightarrow> rat" where
  "calculate_row_consistency row expected_cols =
     (if row = [] \<or> expected_cols = [] then 0
      else ratio (length (filter (\<lambda>col. col < length row \<and> non_empty (row ! col)) expected_cols))
                 (length expected_cols))"

record table_check =
  is_table :: bool
  t_confidence :: rat
  header_index :: "nat option"
  data_start_index :: "nat option"

definition not_table :: table_check where
  "not_table = \<lparr>is_table = False, t_confidence = 0, header_index = None, data_start_index = None\<rparr>"

definition check_table_structure :: "config \<Rightarrow> cell list list \<Rightarrow> table_check" where
  "check_table_structure cfg data =
     (if length data < 2 then not_table
      else (case find_header_row cfg data of
              None \<Rightarrow> not_table
            | Some hi \<Rightarrow>
                (let header = data ! hi;
                     non_empty_cols = filter (\<lambda>i. non_empty (header ! i)) [0..<length header]
                 in if length non_empty_cols < 2 then not_table
                    else (let data_rows = drop (hi + 1) data
                          in if data_rows = [] then not_table
                             else (let avg_consistency =
                                         mean (map (\<lambda>row. calculate_row_consistency row non_empty_cols)
                                                   (take 10 data_rows))
                                   in \<lparr>is_table = (avg_consistency > 1 / 2),
                                       t_confidence = avg_consistency,
                                       header_index = Some hi,
                                       data_start_index = Some (hi + 1)\<rparr>)))))"

subsection \<open>Key-value test\<close>

definition horizontal_kv :: "cell list \<Rightarrow> bool" where
  "horizontal_kv row =
     (length row \<ge> 2 \<and>
      ((case row ! 0 of CStr s \<Rightarrow> strip s \<noteq> [] \<and> CHR '':'' \<in> set s | _ \<Rightarrow> False) \<or>
       (row ! 1 \<noteq> CNone \<and> row ! 0 \<noteq> row ! 1)))"

definition ends_with :: "string \<Rightarrow> char \<Rightarrow> bool" where
  "ends_with s c = (s \<noteq> [] \<and> last s = c)"

definition key_like :: "cell \<Rightarrow> bool" where
  "key_like c =
     (case c of
        CStr s \<Rightarrow>
          (let key_str = strip s
           in key_str \<noteq> [] \<and>
              (ends_with key_str CHR '':'' \<or>
               list_ex (\<lambda>w. found (lit w) (lower key_str)) [''name'', ''id'', ''date'', ''value'', ''type'']))
      | _ \<Rightarrow> False)"

definition check_column_kv_pattern :: "cell list \<Rightarrow> bool" where
  "check_column_kv_pattern col_data =
     (if length col_data < 2 then False
      else length (filter (\<lambda>i. key_like (col_data ! i))
                     (filter even [0..<length col_data - 1])) \<ge> 2)"

record kv_check =
  is_key_value :: bool
  kv_conf :: rat

definition check_key_value_structure :: "config \<Rightarrow> cell list list \<Rightarrow> kv_check" where
  "check_key_value_structure cfg data =
     (if data = [] then \<lparr>is_key_value = False, kv_conf = 0\<rparr>
      else (let horizontal = filter horizontal_kv (take (max_scan_rows cfg) data);
                vertical =
                  (if length data \<ge> 2
                   then filter (\<lambda>col_idx. check_column_kv_pattern
                                  (map (\<lambda>row. if col_idx < length row then row ! col_idx else CNone) data))
                          [0..<min (max_scan_cols cfg) (fold min (map length (tl data)) (length (hd data)))]
                   else []);
                n = length horizontal + length vertical
            in if n > 0
               then \<lparr>is_key_value = True, kv_conf = min (ratio n (length data + length (hd data))) 1\<rparr>
               else \<lparr>is_key_value = False, kv_conf = 0\<rparr>))"

subsection \<open>Per-region classification\<close>

datatype region_kind = Table | KeyValue | UnknownRegion

record region_type =
  rt_type :: region_kind
  rt_confidence :: rat
  rt_header_row :: "nat option"
  rt_data_start_row :: "nat option"

definition region_data :: "grid \<Rightarrow> region \<Rightarrow> cell list list" where
  "region_data data reg =
     map (\<lambda>i. map (\<lambda>j. if j < length (data ! i) then data ! i ! j else CNone)
                [min_col reg..<min (max_col reg + 1) (if i < length data then length (data ! i) else 0)])
         [min_row reg..<min (max_row reg + 1) (length data)]"

definition analyze_region :: "config \<Rightarrow> grid \<Rightarrow> region \<Rightarrow> region_type" where
  "analyze_region cfg data reg =
     (let rd = region_data data reg; table = check_table_structure cfg rd
      in if is_table table
         then \<lparr>rt_type = Table, rt_confidence = t_confidence table,
               rt_header_row = Some (min_row reg + (case header_index table of Some h \<Rightarrow> h | None \<Rightarrow> 0)),
               rt_data_start_row =
                 Some (min_row reg + (case data_start_index table of Some d \<Rightarrow> d | None \<Rightarrow> 1))\<rparr>
         else (let kv = check_key_value_structure cfg rd
               in if is_key_value kv
                  then \<lparr>rt_type = KeyValue, rt_confidence = kv_conf kv,
                        rt_header_row = None, rt_data_start_row = None\<rparr>
                  else \<lparr>rt_type = UnknownRegion, rt_confidence = 0,
                        rt_header_row = None, rt_data_start_row = None\<rparr>))"

subsection \<open>Sheet-level aggregation\<close>

record analysis =
  has_table_structure :: bool
  has_key_value_pairs :: bool
  mixed_structure :: bool
  table_confidence :: rat
  kv_confidence :: rat
  overall_confidence :: rat
  table_bounds :: "region option"
  header_row :: "nat option"
  data_start_row :: "nat option"
  key_value_regions :: "region list"
  regions :: "region list"

definition initial_analysis :: analysis where
  "initial_analysis =
     \<lparr>has_table_structure = False, has_key_value_pairs = False, mixed_structure = False,
      table_confidence = 0, kv_confidence = 0, overall_confidence = 0,
      table_bounds = None, header_row = None, data_start_row = None,
      key_value_regions = [], regions = []\<rparr>"

text \<open>The body of the loop over the regions in \<open>analyze_data_patterns\<close>.\<close>

definition analyze_step :: "config \<Rightarrow> grid \<Rightarrow> analysis \<Rightarrow> region \<Rightarrow> analysis" where
  "analyze_step cfg data a reg =
     (let rt = analyze_region cfg data reg
      in if rt_type rt = Table
         then (let a1 = a\<lparr>has_table_structure := True,
                          table_confidence := max (table_confidence a) (rt_confidence rt)\<rparr>
               in if table_bounds a1 = None
                  then a1\<lparr>table_bounds := Some reg, header_row := rt_header_row rt,
                          data_start_row := rt_data_start_row rt\<rparr>
                  else a1)
         else if rt_type rt = KeyValue
         then a\<lparr>has_key_value_pairs := True,
                kv_confidence := max (kv_confidence a) (rt_confidence rt),
                key_value_regions := key_value_regions a @ [reg]\<rparr>
         else a)"

definition analyze_data_patterns :: "config \<Rightarrow> grid \<Rightarrow> analysis" where
  "analyze_data_patterns cfg data =
     (let regs = find_data_regions data; a0 = initial_analysis\<lparr>regions := regs\<rparr>
      in if regs = [] then a0
         else (let a = foldl (analyze_step cfg data) a0 regs
               in if has_table_structure a \<and> has_key_value_pairs a
                  then a\<lparr>mixed_structure := True,
                         overall_confidence := (table_confidence a + kv_confidence a) / 2\<rparr>
                  else a\<lparr>overall_confidence := max (table_confidence a) (kv_confidence a)\<rparr>))"

datatype sheet_type = Structured | Unstructured | SemiStructured | UnknownSheet | EmptySheet

text \<open>
  The dictionary returned by \<open>detect_structure\<close>; a key that the returned dictionary does
  not have is \<open>None\<close> here.
\<close>

record decision =
  d_type :: sheet_type
  d_confidence :: rat
  d_table_bounds :: "region option"
  d_header_row :: "nat option"
  d_data_start_row :: "nat option"
  d_key_value_regions :: "region list option"
  d_regions :: "region list option"
  d_details :: "analysis option"

definition detect_structure :: "config \<Rightarrow> grid \<Rightarrow> decision" where
  "detect_structure cfg data =
     (if data = []
      then \<lparr>d_type = EmptySheet, d_confidence = 1, d_table_bounds = None, d_header_row = None,
            d_data_start_row = None, d_key_value_regions = None, d_regions = None, d_details = None\<rparr>
      else (let a = analyze_data_patterns cfg data
            in if has_table_structure a
               then \<lparr>d_type = Structured, d_confidence = table_confidence a,
                     d_table_bounds = table_bounds a, d_header_row = header_row a,
                     d_data_start_row = data_start_row a, d_key_value_regions = None,
                     d_regions = None, d_details = Some a\<rparr>
               else if has_key_value_pairs a
               then \<lparr>d_type = Unstructured, d_confidence = kv_confidence a,
                     d_table_bounds = None, d_header_row = None, d_data_start_row = None,
                     d_key_value_regions = Some (key_value_regions a), d_regions = None,
                     d_details = Some a\<rparr>
               else if mixed_structure a
               then \<lparr>d_type = SemiStructured, d_confidence = overall_confidence a,
                     d_table_bounds = None, d_header_row = None, d_data_start_row = None,
                     d_key_value_regions = None, d_regions = Some (regions a), d_details = Some a\<rparr>
               else \<lparr>d_type = UnknownSheet, d_confidence = 0,
                     d_table_bounds = None, d_header_row = None, d_data_start_row = None,
                     d_key_value_regions = None, d_regions = None, d_details = Some a\<rparr>))"

subsection \<open>Table extractor\<close>

record table_data =
  td_columns :: "cell list"
  td_data :: "cell list list"

definition extract_table :: "grid \<Rightarrow> decision \<Rightarrow> table_data" where
  "extract_table data info =
     (case d_table_bounds info of
        None \<Rightarrow> \<lparr>td_columns = [], td_data = []\<rparr>
      | Some bounds \<Rightarrow>
          (let hrow = (case d_header_row info of Some h \<Rightarrow> h | None \<Rightarrow> min_row bounds);
               data_start = (case d_data_start_row info of Some d \<Rightarrow> d | None \<Rightarrow> hrow + 1);
               headers =
                 (if hrow < length data
                  then map (\<lambda>col. data ! hrow ! col)
                         [min_col bounds..<min (max_col bounds + 1) (length (data ! hrow))]
                  else []);
               rows =
                 map (\<lambda>row_idx.
                        map (\<lambda>col_idx. if col_idx < length (data ! row_idx) then data ! row_idx ! col_idx else CNone)
                          [min_col bounds..<max_col bounds + 1])
                   [data_start..<min (max_row bounds + 1) (length data)]
           in \<lparr>td_columns = headers, td_data = rows\<rparr>))"

section \<open>Data cleaner: column names\<close>

text \<open>The fallback name \<open>f"Column_{i + 1}"\<close>.\<close>

definition column_default :: "nat \<Rightarrow> string" where
  "column_default i = ''Column_'' @ show_nat (i + 1)"

text \<open>\<open>re.sub(r'[^\w\s]', '_', s)\<close>.\<close>

definition sub_special :: "string \<Rightarrow> string" where
  "sub_special s = map (\<lambda>c. if is_word c \<or> is_space c then c else CHR ''_'') s"

text \<open>\<open>re.sub(r'[\s_]+', '_', s)\<close>: every maximal run of whitespace and underscores becomes one underscore.\<close>

definition is_sep :: "char \<Rightarrow> bool" where
  "is_sep c = (is_space c \<or> c = CHR ''_'')"

function collapse :: "string \<Rightarrow> string" where
  "collapse [] = []"
| "collapse (c # cs) = (if is_sep c then CHR ''_'' # collapse (dropWhile is_sep cs) else c # collapse cs)"
  by pat_completeness auto
termination
  by (relation "measure length") (auto simp: le_imp_less_Suc length_dropWhile_le)

text \<open>The name of column \<open>i\<close> before duplicates are handled.\<close>

definition base_name :: "nat \<Rightarrow> cell \<Rightarrow> string" where
  "base_name i col =
     (if col = CNone \<or> (case col of CStr s \<Rightarrow> strip s = [] | _ \<Rightarrow> False) then column_default i
      else (let col_name = strip_with (\<lambda>c. c = CHR ''_'') (collapse (sub_special (strip (py_str col))))
            in if col_name = [] then column_default i else col_name))"

text \<open>\<open>f"{original_name}_{counter}"\<close>.\<close>

definition suffixed :: "string \<Rightarrow> nat \<Rightarrow> string" where
  "suffixed original counter = original @ ''_'' @ show_nat counter"

subsection \<open>The decimal rendering is injective\<close>

definition read_nat :: "string \<Rightarrow> nat" where
  "read_nat s = digits_value s"

lemma of_char_digit_char: "d < 10 \<Longrightarrow> (of_char (digit_char d) :: nat) = 48 + d"
  by (simp add: digit_char_def)

lemma read_nat_show_nat: "read_nat (show_nat n) = n"
proof (induction n rule: show_nat.induct)
  case (1 n)
  show ?case
  proof (cases "n < 10")
    case True
    then show ?thesis
      by (subst show_nat.simps) (simp add: read_nat_def digits_value_def of_char_digit_char)
  next
    case False
    with 1 have "read_nat (show_nat (n div 10)) = n div 10" by simp
    with False show ?thesis
      by (subst show_nat.simps) (simp add: read_nat_def digits_value_def of_char_digit_char)
  qed
qed

lemma show_nat_inj: "show_nat a = show_nat b \<Longrightarrow> a = b"
  by (metis read_nat_show_nat)

lemma suffixed_inj: "suffixed original a = suffixed original b \<Longrightarrow> a = b"
  by (simp add: suffixed_def show_nat_inj)

lemma finite_suffixes: "finite {k. suffixed original k \<in> fset seen}"
proof -
  have "inj (suffixed original)"
    by (rule injI) (rule suffixed_inj)
  then have "finite (suffixed original -` fset seen)"
    by (intro finite_vimageI) simp_all
  then show ?thesis by (simp add: vimage_def)
qed

subsection \<open>Duplicates\<close>

text \<open>
  The loop \<open>while col_name in seen\<close>, on the pair \<open>(col_name, counter)\<close>. It ends because
  \<open>seen\<close> is finite and the candidates \<open>original_1, original_2, \<dots>\<close> are all different.
\<close>

definition later_suffixes :: "string fset \<Rightarrow> string \<Rightarrow> nat \<Rightarrow> nat set" where
  "later_suffixes seen original counter = {k. counter \<le> k \<and> suffixed original k \<in> fset seen}"

lemma finite_later_suffixes: "finite (later_suffixes seen original counter)"
  unfolding later_suffixes_def using finite_suffixes [of original seen] by simp

function unique_name :: "string fset \<Rightarrow> string \<Rightarrow> string \<Rightarrow> nat \<Rightarrow> string" where
  "unique_name seen original col_name counter =
     (if col_name |\<in>| seen then unique_name seen original (suffixed original counter) (counter + 1)
      else col_name)"
  by pat_completeness auto
termination
proof (relation "measure (\<lambda>(seen, original, col_name, counter).
          2 * card (later_suffixes seen original counter) + (if col_name |\<in>| seen then 1 else 0))")
  show "wf (measure (\<lambda>(seen, original, col_name, counter).
          2 * card (later_suffixes seen original counter) + (if col_name |\<in>| seen then 1 else 0)))"
    by simp
next
  fix seen :: "string fset" and original col_name :: string and counter :: nat
  assume "col_name |\<in>| seen"
  have sub: "later_suffixes seen original (counter + 1) \<subseteq> later_suffixes seen original counter"
    by (auto simp: later_suffixes_def)
  have "2 * card (later_suffixes seen original (counter + 1))
          + (if suffixed original counter |\<in>| seen then 1 else 0)
        < 2 * card (later_suffixes seen original counter) + 1"
  proof (cases "suffixed original counter |\<in>| seen")
    case True
    then have "counter \<in> later_suffixes seen original counter"
      and "counter \<notin> later_suffixes seen original (counter + 1)"
      by (simp_all add: later_suffixes_def)
    with sub have "later_suffixes seen original (counter + 1) \<subset> later_suffixes seen original counter"
      by blast
    then have "card (later_suffixes seen original (counter + 1)) < card (later_suffixes seen original counter)"
      by (intro psubset_card_mono finite_later_suffixes)
    with True show ?thesis by simp
  next
    case False
    have "card (later_suffixes seen original (counter + 1)) \<le> card (later_suffixes seen original counter)"
      by (intro card_mono finite_later_suffixes sub)
    with False show ?thesis by simp
  qed
  with \<open>col_name |\<in>| seen\<close>
  show "((seen, original, suffixed original counter, counter + 1), (seen, original, col_name, counter))
      \<in> measure (\<lambda>(seen, original, col_name, counter).
          2 * card (later_suffixes seen original counter) + (if col_name |\<in>| seen then 1 else 0))"
    by simp
qed

declare unique_name.simps [simp del]

text \<open>The loop body of \<open>clean_column_names\<close>, on the pair \<open>(seen, cleaned)\<close>.\<close>

definition clean_step :: "string fset \<times> string list \<Rightarrow> nat \<times> cell \<Rightarrow> string fset \<times> string list" where
  "clean_step s ic =
     (let original_name = base_name (fst ic) (snd ic);
          col_name = unique_name (fst s) original_name original_name 1
      in (finsert col_name (fst s), snd s @ [col_name]))"

definition clean_state :: "cell list \<Rightarrow> string fset \<times> string list" where
  "clean_state columns = foldl clean_step ({||}, []) (enumerate 0 columns)"

definition clean_column_names :: "cell list \<Rightarrow> string list" where
  "clean_column_names columns = snd (clean_state columns)"


section \<open>Unstructured parser\<close>

subsection \<open>String helpers\<close>

text \<open>\<open>s.split()\<close>: the maximal runs of non-whitespace characters.\<close>

fun split_acc :: "string \<Rightarrow> string \<Rightarrow> string list" where
  "split_acc w [] = (if w = [] then [] else [w])"
| "split_acc w (c # cs) =
     (if is_space c then (if w = [] then split_acc [] cs else w # split_acc [] cs)
      else split_acc (w @ [c]) cs)"

definition split_ws :: "string \<Rightarrow> string list" where
  "split_ws s = split_acc [] s"

text \<open>\<open>' '.join(xs)\<close>.\<close>

fun join_sp :: "string list \<Rightarrow> string" where
  "join_sp [] = []"
| "join_sp [x] = x"
| "join_sp (x # y # ys) = x @ '' '' @ join_sp (y # ys)"

text \<open>\<open>s.isupper()\<close>: some cased character, and no lower-case one.\<close>

definition isupper :: "string \<Rightarrow> bool" where
  "isupper s = (list_ex is_upper s \<and> \<not> list_ex is_lower s)"

text \<open>\<open>sub in s\<close> for two strings.\<close>

definition contains :: "string \<Rightarrow> string \<Rightarrow> bool" where
  "contains s sub = found (lit sub) s"

text \<open>\<open>re.sub('^' + p, '', s)\<close> for a pattern \<open>p\<close> anchored at the start: the match is cut off.\<close>

definition cut_prefix :: "rx \<Rightarrow> string \<Rightarrow> string" where
  "cut_prefix p s =
     (case re_match (Grp 0 p) s of
        None \<Rightarrow> s
      | Some caps \<Rightarrow> (case map_of caps 0 of None \<Rightarrow> s | Some m \<Rightarrow> drop (length m) s))"

subsection \<open>Patterns\<close>

text \<open>
  The bullet characters of the patterns are outside ASCII, so no character of the model is
  a bullet.
\<close>

definition is_bullet :: "char \<Rightarrow> bool" where
  "is_bullet c = False"

definition key_patterns :: "rx list" where
  "key_patterns =
     [sq [Bol, Cls is_upper, Many (\<lambda>c. is_alpha c \<or> is_space c) 1 None, chr CHR '':''],
      sq [Bol, Cls is_upper, Many (\<lambda>c. is_upper c \<or> is_space c) 1 None, chr CHR '':''],
      sq [Bol, Many is_digit 1 None, chr CHR ''.'', Many is_space 1 None, Cls is_alpha],
      sq [Bol, Cls is_bullet, Many is_space 1 None],
      sq [Bol, chr CHR ''('', Cls is_lower, chr CHR '')''],
      sq [Bol, Many is_digit 1 None, chr CHR '')'']]"

definition section_patterns :: "rx list" where
  "section_patterns =
     [sq [Bol, Cls is_upper, Many (\<lambda>c. is_upper c \<or> is_space c) 1 None, Eol],
      sq [Bol, Many is_digit 1 None, chr CHR ''.'', Many is_space 1 None, Cls is_upper],
      sq [Bol, lit ''Section'', Many is_space 1 None, Many is_digit 1 None]]"

definition subsection_patterns :: "rx list" where
  "subsection_patterns =
     [sq [Bol, Many is_digit 1 None, chr CHR ''.'', Many is_digit 1 None, Many is_space 1 None],
      sq [Bol, Cls is_lower, chr CHR '')''],
      sq [Bol, Many is_space 2 None, Cls is_upper]]"

subsection \<open>Classification of a cell text\<close>

definition is_section_header :: "string \<Rightarrow> nat \<Rightarrow> bool" where
  "is_section_header text col_idx =
     (if col_idx > 2 then False
      else if list_ex (\<lambda>p. matches p text) section_patterns then True
      else isupper text \<and> length (split_ws text) > 1 \<and> \<not> ends_with text CHR '':'')"

definition is_subsection_header :: "string \<Rightarrow> nat \<Rightarrow> bool" where
  "is_subsection_header text col_idx =
     (if list_ex (\<lambda>p. matches p text) subsection_patterns then True
      else length (split_ws text) > 1 \<and> list_all (\<lambda>w. is_upper (hd w)) (filter (\<lambda>w. w \<noteq> []) (split_ws text)) \<and>
           \<not> ends_with text CHR '':'')"

definition is_header :: "string \<Rightarrow> bool" where
  "is_header text = (is_section_header text 0 \<or> is_subsection_header text 1)"

text \<open>\<open>text.split(sep, 1)\<close> for a separator that occurs in \<open>text\<close>.\<close>

definition split_once :: "char \<Rightarrow> string \<Rightarrow> string \<times> string" where
  "split_once sep text = (takeWhile (\<lambda>c. c \<noteq> sep) text, tl (dropWhile (\<lambda>c. c \<noteq> sep) text))"

definition is_key_value_pair :: "string \<Rightarrow> bool" where
  "is_key_value_pair text =
     ((CHR '':'' \<in> set text \<and> strip (fst (split_once CHR '':'' text)) \<noteq> [] \<and>
         length (fst (split_once CHR '':'' text)) < 50) \<or>
      (CHR ''='' \<in> set text \<and> strip (fst (split_once CHR ''='' text)) \<noteq> [] \<and>
         length (fst (split_once CHR ''='' text)) < 50))"

definition is_standalone_key :: "string \<Rightarrow> bool" where
  "is_standalone_key text = (ends_with text CHR '':'' \<or> list_ex (\<lambda>p. matches p text) key_patterns)"

text \<open>\<open>x or None\<close> for a string \<open>x\<close>.\<close>

definition or_none :: "string \<Rightarrow> string option" where
  "or_none x = (if x = [] then None else Some x)"

definition extract_key_value :: "string \<Rightarrow> string \<times> string option" where
  "extract_key_value text =
     (if CHR '':'' \<in> set text
      then (strip (fst (split_once CHR '':'' text)), or_none (strip (snd (split_once CHR '':'' text))))
      else if CHR ''='' \<in> set text
      then (strip (fst (split_once CHR ''='' text)), or_none (strip (snd (split_once CHR ''='' text))))
      else (text, None))"

definition clean_header :: "string \<Rightarrow> string" where
  "clean_header text =
     strip (cut_prefix (sq [Cls is_bullet, Many is_space 0 None])
       (cut_prefix (sq [chr CHR ''('', Cls is_lower, chr CHR '')'', Many is_space 0 None])
         (cut_prefix (sq [Many is_digit 1 None, Opt (chr CHR ''.''), Many is_space 0 None]) text)))"

definition clean_key :: "string \<Rightarrow> string" where
  "clean_key text = join_sp (split_ws (if ends_with text CHR '':'' then butlast text else text))"

subsection \<open>The nested document\<close>

text \<open>
  A value of the document is a scalar (a string or \<open>None\<close>), the list kept under
  \<open>_content\<close>, or a nested ordered dictionary; an ordered dictionary is an association
  list in insertion order.
\<close>

datatype node = Str "string option" | Lst "string list" | Dct "(string \<times> node) list"

type_synonym doc = "(string \<times> node) list"

datatype perr = TypeError | AttributeError | KeyError

text \<open>\<open>d[k] = v\<close>: an existing key keeps its place.\<close>

fun upd :: "string \<Rightarrow> node \<Rightarrow> doc \<Rightarrow> doc" where
  "upd k v [] = [(k, v)]"
| "upd k v (kv # kvs) = (if fst kv = k then (k, v) # kvs else kv # upd k v kvs)"

text \<open>\<open>if k not in d: d[k] = OrderedDict()\<close> on a dictionary.\<close>

definition ensure_key :: "string \<Rightarrow> doc \<Rightarrow> doc" where
  "ensure_key k d = (if map_of d k = None then upd k (Dct []) d else d)"

text \<open>\<open>d[k]\<close> on a dictionary.\<close>

definition get_key :: "string \<Rightarrow> doc \<Rightarrow> perr + node" where
  "get_key k d = (case map_of d k of None \<Rightarrow> Inl KeyError | Some v \<Rightarrow> Inr v)"

text \<open>
  \<open>if sub not in v: v[sub] = OrderedDict()\<close> for the value \<open>v\<close> kept under a section: on a
  string, \<open>in\<close> is the substring test and the assignment fails.
\<close>

definition ensure_sub :: "string \<Rightarrow> node \<Rightarrow> perr + node" where
  "ensure_sub sub v =
     (case v of
        Dct d \<Rightarrow> Inr (Dct (ensure_key sub d))
      | Str None \<Rightarrow> Inl TypeError
      | Str (Some s) \<Rightarrow> if contains s sub then Inr v else Inl TypeError
      | Lst l \<Rightarrow> if sub \<in> set l then Inr v else Inl TypeError)"

text \<open>\<open>v[k]\<close> and \<open>v[k] = x\<close> with a string \<open>k\<close>, for any value \<open>v\<close>.\<close>

definition get_item :: "string \<Rightarrow> node \<Rightarrow> perr + node" where
  "get_item k v = (case v of Dct d \<Rightarrow> get_key k d | _ \<Rightarrow> Inl TypeError)"

definition set_item :: "string \<Rightarrow> node \<Rightarrow> node \<Rightarrow> perr + node" where
  "set_item k x v = (case v of Dct d \<Rightarrow> Inr (Dct (upd k x d)) | _ \<Rightarrow> Inl TypeError)"

text \<open>\<open>if "_content" not in v: v["_content"] = []\<close> followed by \<open>v["_content"].append(x)\<close>.\<close>

definition append_content :: "string \<Rightarrow> node \<Rightarrow> perr + node" where
  "append_content x v =
     (case v of
        Dct d \<Rightarrow>
          (case map_of d ''_content'' of
             None \<Rightarrow> Inr (Dct (upd ''_content'' (Lst [x]) d))
           | Some (Lst l) \<Rightarrow> Inr (Dct (upd ''_content'' (Lst (l @ [x])) d))
           | Some _ \<Rightarrow> Inl AttributeError)
      | _ \<Rightarrow> Inl TypeError)"

text \<open>Sequencing of steps that may raise.\<close>

definition bind :: "perr + 'a \<Rightarrow> ('a \<Rightarrow> perr + 'b) \<Rightarrow> perr + 'b" where
  "bind m f = (case m of Inl e \<Rightarrow> Inl e | Inr x \<Rightarrow> f x)"

fun fold_err :: "('s \<Rightarrow> 'a \<Rightarrow> perr + 's) \<Rightarrow> 's \<Rightarrow> 'a list \<Rightarrow> perr + 's" where
  "fold_err f s [] = Inr s"
| "fold_err f s (x # xs) = (case f s x of Inl e \<Rightarrow> Inl e | Inr s' \<Rightarrow> fold_err f s' xs)"

text \<open>The truth value of an optional string: neither \<open>None\<close> nor empty.\<close>

definition truthy :: "string option \<Rightarrow> bool" where
  "truthy x = (case x of None \<Rightarrow> False | Some s \<Rightarrow> s \<noteq> [])"

definition add_to_structure :: "doc \<Rightarrow> string option \<Rightarrow> string option \<Rightarrow> string list \<Rightarrow> perr + doc" where
  "add_to_structure content section subsection values =
     (if values = [] then Inr content
      else (let combined_value = join_sp values
            in if truthy section \<and> truthy subsection
               then (let content1 = ensure_key (the section) content
                     in bind (get_key (the section) content1) (\<lambda>v.
                        bind (ensure_sub (the subsection) v) (\<lambda>v1.
                        bind (get_item (the subsection) v1) (\<lambda>w.
                        bind (append_content combined_value w) (\<lambda>w1.
                        bind (set_item (the subsection) w1 v1) (\<lambda>v2.
                        Inr (upd (the section) v2 content1)))))))
               else if truthy section
               then (let content1 = ensure_key (the section) content
                     in bind (get_key (the section) content1) (\<lambda>v.
                        bind (append_content combined_value v) (\<lambda>v1.
                        Inr (upd (the section) v1 content1))))
               else bind (append_content combined_value (Dct content)) (\<lambda>c.
                      case c of Dct content1 \<Rightarrow> Inr content1 | _ \<Rightarrow> Inl TypeError)))"

definition add_key_value_to_structure ::
    "doc \<Rightarrow> string option \<Rightarrow> string option \<Rightarrow> string \<Rightarrow> string option \<Rightarrow> perr + doc" where
  "add_key_value_to_structure content section subsection key val =
     (if truthy section \<and> truthy subsection
      then (let content1 = ensure_key (the section) content
            in bind (get_key (the section) content1) (\<lambda>v.
               bind (ensure_sub (the subsection) v) (\<lambda>v1.
               bind (get_item (the subsection) v1) (\<lambda>w.
               bind (set_item key (Str val) w) (\<lambda>w1.
               bind (set_item (the subsection) w1 v1) (\<lambda>v2.
               Inr (upd (the section) v2 content1)))))))
      else if truthy section
      then (let content1 = ensure_key (the section) content
            in bind (get_key (the section) content1) (\<lambda>v.
               bind (set_item key (Str val) v) (\<lambda>v1.
               Inr (upd (the section) v1 content1))))
      else Inr (upd key (Str val) content))"

subsection \<open>The state machine over the cells\<close>

record pstate =
  content :: doc
  current_section :: "string option"
  current_subsection :: "string option"
  pending_value :: "string list"

text \<open>The flush of \<open>pending_value\<close> at a header: \<open>if pending_value and current_section\<close>.\<close>

definition flush_pending :: "pstate \<Rightarrow> perr + pstate" where
  "flush_pending st =
     (if pending_value st \<noteq> [] \<and> truthy (current_section st)
      then bind (add_to_structure (content st) (current_section st) (current_subsection st) (pending_value st))
             (\<lambda>c. Inr (st\<lparr>content := c, pending_value := []\<rparr>))
      else Inr st)"

text \<open>
  The value taken from the next cell of the row, if that cell is there, is not \<open>None\<close> and
  is neither a key-value pair nor a header.
\<close>

definition next_cell_text :: "cell list \<Rightarrow> nat \<Rightarrow> string option" where
  "next_cell_text row col_idx =
     (if col_idx + 1 < length row \<and> row ! (col_idx + 1) \<noteq> CNone
      then (let next_cell = strip (py_str (row ! (col_idx + 1)))
            in if \<not> is_key_value_pair next_cell \<and> \<not> is_header next_cell then Some next_cell else None)
      else None)"

definition process_cell :: "cell list \<Rightarrow> pstate \<Rightarrow> nat \<Rightarrow> perr + pstate" where
  "process_cell row st col_idx =
     (let cell = row ! col_idx
      in if cell = CNone \<or> (case cell of CStr s \<Rightarrow> strip s = [] | _ \<Rightarrow> False) then Inr st
         else (let cell_str = strip (py_str cell)
               in if is_section_header cell_str col_idx
                  then bind (flush_pending st) (\<lambda>st1.
                         Inr (st1\<lparr>current_section := Some (clean_header cell_str),
                                  current_subsection := None,
                                  content := ensure_key (clean_header cell_str) (content st1)\<rparr>))
                  else if is_subsection_header cell_str col_idx
                  then bind (flush_pending st) (\<lambda>st1.
                         if truthy (current_section st1)
                         then bind (get_key (the (current_section st1)) (content st1)) (\<lambda>v.
                              bind (ensure_sub (clean_header cell_str) v) (\<lambda>v1.
                              Inr (st1\<lparr>current_subsection := Some (clean_header cell_str),
                                       content := upd (the (current_section st1)) v1 (content st1)\<rparr>)))
                         else Inr (st1\<lparr>current_subsection := Some (clean_header cell_str)\<rparr>))
                  else if is_key_value_pair cell_str
                  then (let key = fst (extract_key_value cell_str);
                            val0 = snd (extract_key_value cell_str);
                            val = (case next_cell_text row col_idx of
                                     None \<Rightarrow> val0
                                   | Some next_cell \<Rightarrow>
                                       (if truthy val0 then Some (the val0 @ '' '' @ next_cell)
                                        else Some next_cell))
                        in bind (add_key_value_to_structure (content st) (current_section st)
                                   (current_subsection st) key val)
                             (\<lambda>c. Inr (st\<lparr>content := c\<rparr>)))
                  else if is_standalone_key cell_str
                  then bind (add_key_value_to_structure (content st) (current_section st)
                               (current_subsection st) (clean_key cell_str) (next_cell_text row col_idx))
                         (\<lambda>c. Inr (st\<lparr>content := c\<rparr>))
                  else Inr (st\<lparr>pending_value := pending_value st @ [cell_str]\<rparr>)))"

definition process_row :: "pstate \<Rightarrow> cell list \<Rightarrow> perr + pstate" where
  "process_row st row = fold_err (process_cell row) st [0..<length row]"

definition parse_data_block :: "cell list list \<Rightarrow> perr + doc" where
  "parse_data_block data =
     bind (fold_err process_row
             \<lparr>content = [], current_section = None, current_subsection = None, pending_value = []\<rparr> data)
       (\<lambda>st. if pending_value st \<noteq> []
             then add_to_structure (content st) (current_section st) (current_subsection st) (pending_value st)
             else Inr (content st))"

subsection \<open>Entry points\<close>

definition parse_full_sheet :: "grid \<Rightarrow> perr + doc" where
  "parse_full_sheet data = parse_data_block data"

text \<open>The loop body of \<open>parse_regions\<close>: an empty region document is left out.\<close>

definition parse_region_step :: "grid \<Rightarrow> doc \<Rightarrow> nat \<times> region \<Rightarrow> perr + doc" where
  "parse_region_step data all_content ir =
     bind (parse_data_block (region_data data (snd ir)))
       (\<lambda>region_content.
          if region_content \<noteq> []
          then Inr (upd (''Region_'' @ show_nat (fst ir + 1)) (Dct region_content) all_content)
          else Inr all_content)"

definition parse_regions :: "grid \<Rightarrow> region list \<Rightarrow> perr + doc" where
  "parse_regions data regs = fold_err (parse_region_step data) [] (enumerate 0 regs)"

text \<open>The \<open>content\<close> entry of the dictionary returned by \<open>parse\<close>.\<close>

definition parse :: "grid \<Rightarrow> decision \<Rightarrow> perr + doc" where
  "parse data info =
     (if data = [] then Inr []
      else (case d_key_value_regions info of
              None \<Rightarrow> parse_full_sheet data
            | Some kv_regions \<Rightarrow>
                if kv_regions \<noteq> [] then parse_regions data kv_regions else parse_full_sheet data))"


section \<open>Date detector\<close>

text \<open>
  The parsers of pandas and dateutil are not part of the repository. The model takes
  them as parameters; every statement about the date detector holds for whatever they
  answer.
\<close>

subsection \<open>Column names\<close>

text \<open>\<open>date_column_patterns\<close>, searched in the lower-cased column name.\<close>

definition date_column_patterns :: "rx list" where
  "date_column_patterns =
     map lit [''date'', ''time'', ''datetime'', ''dt'', ''period'', ''month'', ''year'', ''quarter'',
              ''week'', ''day'', ''timestamp'', ''created'', ''updated'', ''modified'', ''effective'',
              ''expiry'', ''start'', ''end'', ''from'', ''to'', ''as_of'', ''asof'', ''reporting'',
              ''transaction'', ''trade'', ''settlement'', ''maturity'', ''issue'', ''dated'', ''cal_'']
     @ [sq [lit ''_dt'', Eol], sq [lit ''_date'', Eol], sq [lit ''_time'', Eol]]"

subsection \<open>Custom patterns\<close>

datatype component = Y | M | D | MonthName | Quarter | Hour | Minute | Second | AmPm

definition sep4 :: "char \<Rightarrow> bool" where
  "sep4 c = (c \<in> set ''-/_'' \<or> is_space c)"

definition sep2 :: "char \<Rightarrow> bool" where
  "sep2 c = (c = CHR ''-'' \<or> is_space c)"

definition digits :: "nat \<Rightarrow> nat \<Rightarrow> rx" where
  "digits lo hi = Many is_digit lo (Some hi)"

definition letters39 :: rx where
  "letters39 = Many is_alpha 3 (Some 9)"

text \<open>
  \<open>date_patterns\<close>, compiled with \<open>re.IGNORECASE\<close> (which matters for \<open>[Q]\<close> and
  \<open>[AP]M\<close>); group \<open>i\<close> of a pattern goes with component \<open>i\<close> of its list.
\<close>

definition date_patterns :: "(rx \<times> component list) list" where
  "date_patterns =
     [(sq [WordB, Grp 1 (digits 1 2), Cls sep4, Grp 2 (digits 1 2), Cls sep4, Grp 3 (digits 2 4), WordB],
       [D, M, Y]),
      (sq [WordB, Grp 1 (digits 1 2), Cls sep4, Grp 2 (digits 1 2), Cls sep4, Grp 3 (digits 2 4), WordB],
       [M, D, Y]),
      (sq [WordB, Grp 1 (digits 4 4), Cls sep4, Grp 2 (digits 1 2), Cls sep4, Grp 3 (digits 1 2), WordB],
       [Y, M, D]),
      (sq [WordB, Grp 1 (digits 2 4), Cls sep4, Grp 2 (digits 1 2), Cls sep4, Grp 3 (digits 1 2), WordB],
       [Y, M, D]),
      (sq [WordB, Grp 1 (digits 1 2), Cls sep2, Grp 2 letters39, Cls sep2, Grp 3 (digits 2 4), WordB],
       [D, MonthName, Y]),
      (sq [WordB, Grp 1 letters39, Cls sep2, Grp 2 (digits 1 2), Opt (chr CHR '',''), Many is_space 0 None,
           Grp 3 (digits 2 4), WordB],
       [MonthName, D, Y]),
      (sq [WordB, Grp 1 (digits 1 2), Many is_space 1 None, Grp 2 letters39, Many is_space 1 None,
           Grp 3 (digits 2 4), WordB],
       [D, MonthName, Y]),
      (sq [WordB, Grp 1 (digits 4 4), Grp 2 (digits 2 2), Grp 3 (digits 2 2), WordB],
       [Y, M, D]),
      (sq [WordB, chr_ci CHR ''Q'', Grp 1 (Cls (one_of ''1234'')), Opt (Cls sep2), Grp 2 (digits 2 4), WordB],
       [Quarter, Y]),
      (sq [WordB, Grp 1 (digits 2 4), Opt (Cls sep2), chr_ci CHR ''Q'', Grp 2 (Cls (one_of ''1234'')), WordB],
       [Y, Quarter]),
      (sq [WordB, Grp 1 letters39, Cls sep2, Grp 2 (digits 2 4), WordB],
       [MonthName, Y]),
      (sq [WordB, Grp 1 (digits 1 2), Cls (one_of ''-/_''), Grp 2 (digits 2 4), WordB],
       [M, Y]),
      (sq [WordB, Grp 1 (digits 1 2), chr CHR '':'', Grp 2 (digits 2 2),
           Opt (Sq (chr CHR '':'') (Grp 3 (digits 2 2))), Many is_space 0 None,
           Opt (Grp 4 (Sq (Cls (\<lambda>c. to_upper c \<in> set ''AP'')) (chr_ci CHR ''M''))), WordB],
       [Hour, Minute, Second, AmPm])]"

text \<open>\<open>month_names.get(value.lower()[:3])\<close>: only the keys of three letters can be hit.\<close>

definition month_number :: "string \<Rightarrow> nat option" where
  "month_number v =
     map_of [(''jan'', 1), (''feb'', 2), (''mar'', 3), (''apr'', 4), (''may'', 5), (''jun'', 6),
             (''jul'', 7), (''aug'', 8), (''sep'', 9), (''oct'', 10), (''nov'', 11), (''dec'', 12)]
       (take 3 (lower v))"

record date_parts =
  dp_year :: "nat option"
  dp_month :: "nat option"
  dp_day :: "nat option"
  dp_hour :: nat
  dp_minute :: nat
  dp_second :: nat

text \<open>One round of the loop over the components in \<open>construct_date_from_match\<close>.\<close>

definition apply_component :: "date_parts \<Rightarrow> component \<times> string \<Rightarrow> date_parts" where
  "apply_component dp cv =
     (let v = snd cv in
      case fst cv of
        Y \<Rightarrow> (let year = digits_value v
              in dp\<lparr>dp_year := Some (if year < 100 then (if year < 50 then 2000 + year else 1900 + year)
                                      else year)\<rparr>)
      | M \<Rightarrow> dp\<lparr>dp_month := Some (digits_value v)\<rparr>
      | D \<Rightarrow> dp\<lparr>dp_day := Some (digits_value v)\<rparr>
      | MonthName \<Rightarrow> (case month_number v of None \<Rightarrow> dp | Some n \<Rightarrow> dp\<lparr>dp_month := Some n\<rparr>)
      | Quarter \<Rightarrow> dp\<lparr>dp_month := Some ((digits_value v - 1) * 3 + 2), dp_day := Some 1\<rparr>
      | Hour \<Rightarrow> dp\<lparr>dp_hour := digits_value v\<rparr>
      | Minute \<Rightarrow> dp\<lparr>dp_minute := digits_value v\<rparr>
      | Second \<Rightarrow> dp\<lparr>dp_second := digits_value v\<rparr>
      | AmPm \<Rightarrow>
          (if dp_hour dp \<noteq> 0
           then (if upper v = ''PM'' \<and> dp_hour dp < 12 then dp\<lparr>dp_hour := dp_hour dp + 12\<rparr>
                 else if upper v = ''AM'' \<and> dp_hour dp = 12 then dp\<lparr>dp_hour := 0\<rparr>
                 else dp)
           else dp))"

definition leap_year :: "nat \<Rightarrow> bool" where
  "leap_year y = (y mod 4 = 0 \<and> (y mod 100 \<noteq> 0 \<or> y mod 400 = 0))"

definition days_in_month :: "nat \<Rightarrow> nat \<Rightarrow> nat" where
  "days_in_month y m =
     (if m \<in> set [4, 6, 9, 11] then 30 else if m = 2 then (if leap_year y then 29 else 28) else 31)"

text \<open>Whether \<open>datetime(y, m, d, h, mi, s)\<close> returns, instead of raising \<open>ValueError\<close>.\<close>

definition valid_datetime :: "nat \<Rightarrow> nat \<Rightarrow> nat \<Rightarrow> nat \<Rightarrow> nat \<Rightarrow> nat \<Rightarrow> bool" where
  "valid_datetime y m d h mi s =
     (1 \<le> y \<and> y \<le> 9999 \<and> 1 \<le> m \<and> m \<le> 12 \<and> 1 \<le> d \<and> d \<le> days_in_month y m \<and>
      h < 24 \<and> mi < 60 \<and> s < 60)"

text \<open>
  Whether \<open>construct_date_from_match\<close> returns a datetime (it returns \<open>None\<close> or raises
  otherwise, and \<open>parse_date\<close> goes on to the next pattern in both cases).
\<close>

definition construct_date_from_match :: "(nat \<times> string) list \<Rightarrow> component list \<Rightarrow> bool" where
  "construct_date_from_match groups components =
     (let present = concat (map (\<lambda>(i, c). case map_of groups (i + 1) of None \<Rightarrow> [] | Some v \<Rightarrow> [(c, v)])
                             (enumerate 0 components));
          dp = foldl apply_component
                 \<lparr>dp_year = None, dp_month = None, dp_day = None,
                  dp_hour = 0, dp_minute = 0, dp_second = 0\<rparr> present
      in case (dp_year dp, dp_month dp) of
           (Some y, Some m) \<Rightarrow>
             if y = 0 \<or> m = 0 then False
             else (let d = (case dp_day dp of None \<Rightarrow> 1 | Some d \<Rightarrow> if d = 0 then 1 else d)
                   in valid_datetime y m d (dp_hour dp) (dp_minute dp) (dp_second dp) \<or>
                      (d > 28 \<and> 1 \<le> m \<and> m \<le> 12 \<and>
                       valid_datetime y m (min d (days_in_month y m)) (dp_hour dp) (dp_minute dp) (dp_second dp)))
         | _ \<Rightarrow> False)"

definition custom_date :: "string \<Rightarrow> bool" where
  "custom_date value_str =
     list_ex (\<lambda>(pattern, components).
                case re_search pattern value_str of
                  None \<Rightarrow> False
                | Some groups \<Rightarrow> construct_date_from_match groups components)
       date_patterns"

text \<open>The Excel serial number rule: \<open>float(value_str)\<close> succeeds and \<open>1 < serial < 100000\<close>.\<close>

definition excel_serial :: "string \<Rightarrow> bool" where
  "excel_serial value_str =
     (case py_float value_str of Some (Finite serial) \<Rightarrow> 1 < serial \<and> serial < 100000 | _ \<Rightarrow> False)"

subsection \<open>The values of a data frame\<close>

text \<open>
  A value stored in a data frame is missing (\<open>None\<close> or \<open>NaN\<close>), a string, a Python
  integer, or a float. Floats come into a frame when pandas stores a column of integers
  that has missing cells as \<open>float64\<close>.
\<close>

datatype fcell = FNone | FStr string | FInt int | FFloat rat

definition of_cell :: "cell \<Rightarrow> fcell" where
  "of_cell v = (case v of CNone \<Rightarrow> FNone | CStr s \<Rightarrow> FStr s | CInt i \<Rightarrow> FInt i)"

definition is_integral :: "rat \<Rightarrow> bool" where
  "is_integral r = (of_int \<lfloor>r\<rfloor> = r)"

subsection \<open>The cascade\<close>

text \<open>
  What the libraries answer. \<open>pd_to_datetime\<close> tells whether
  \<open>pandas.to_datetime(s, errors='coerce')\<close> gives a timestamp, \<open>dateutil_parse\<close> whether
  \<open>dateutil.parser.parse(s, fuzzy=True)\<close> returns, \<open>to_numeric\<close> what
  \<open>pandas.to_numeric(\<dots>, errors='coerce')\<close> makes of a string or a Python integer (\<open>None\<close>
  standing for \<open>NaN\<close>), \<open>float_repr\<close> how Python prints a float that is not printed as an
  integer followed by \<open>.0\<close>, and \<open>sample\<close> which values \<open>Series.sample\<close> draws.
\<close>

record 'e ext =
  pd_to_datetime :: "string \<Rightarrow> bool"
  dateutil_parse :: "string \<Rightarrow> bool"
  to_numeric :: "cell \<Rightarrow> rat option"
  float_repr :: "rat \<Rightarrow> string"
  sample :: "fcell list \<Rightarrow> nat \<Rightarrow> fcell list"
  cleaner_date :: "string \<Rightarrow> string option"
  enhanced_metadata :: 'e

text \<open>
  \<open>str(value)\<close> for a value of a frame. A float of integral value below \<open>10 ^ 16\<close> in
  magnitude is printed as that integer followed by \<open>.0\<close>: the integer column \<open>1, NaN, 0\<close>
  reads \<open>'1.0'\<close>, \<open>'0.0'\<close>.
\<close>

definition float_str :: "('e, 'x) ext_scheme \<Rightarrow> rat \<Rightarrow> string" where
  "float_str ext r =
     (if is_integral r \<and> \<bar>r\<bar> < 10 ^ 16 then show_int \<lfloor>r\<rfloor> @ ''.0'' else float_repr ext r)"

definition fstr :: "('e, 'x) ext_scheme \<Rightarrow> fcell \<Rightarrow> string" where
  "fstr ext v =
     (case v of FNone \<Rightarrow> ''None'' | FStr s \<Rightarrow> s | FInt i \<Rightarrow> show_int i | FFloat r \<Rightarrow> float_str ext r)"

text \<open>Whether \<open>DateTimeDetector.parse_date\<close> returns a datetime.\<close>

definition detector_parse_date :: "('e, 'x) ext_scheme \<Rightarrow> fcell \<Rightarrow> bool" where
  "detector_parse_date ext v =
     (if v = FNone then False
      else (let value_str = strip (fstr ext v)
            in if value_str = [] then False
               else if pd_to_datetime ext value_str then True
               else if dateutil_parse ext value_str then True
               else if custom_date value_str then True
               else excel_serial value_str))"

definition is_date_column :: "('e, 'x) ext_scheme \<Rightarrow> string \<Rightarrow> fcell list \<Rightarrow> bool" where
  "is_date_column ext column_name sample_data =
     (if list_ex (\<lambda>p. found p (lower column_name)) date_column_patterns then True
      else if sample_data \<noteq> []
      then ratio (length (filter (detector_parse_date ext) (take 20 sample_data)))
                 (min 20 (length sample_data)) > 1 / 2
      else False)"


section \<open>Data cleaner: frames\<close>

text \<open>
  A data frame is the ordered list of its named columns. Before type conversion a column
  holds values of type \<open>fcell\<close>; after it, values of type \<open>dval\<close>.
\<close>

type_synonym 'v frame = "(string \<times> 'v list) list"

datatype dval = VNone | VStr string | VInt int | VNum rat | VBool bool

definition frame_len :: "'v frame \<Rightarrow> nat" where
  "frame_len df = (case df of [] \<Rightarrow> 0 | c # _ \<Rightarrow> length (snd c))"

datatype cerr = ValueError | MetadataError

record clean_config =
  replace_missing_with :: "cell option"
  trim_whitespace :: bool
  standardize_dates :: bool
  remove_duplicates :: bool
  infer_data_types :: bool

definition default_cleaning :: clean_config where
  "default_cleaning =
     \<lparr>replace_missing_with = None, trim_whitespace = True, standardize_dates = True,
      remove_duplicates = False, infer_data_types = True\<rparr>"

subsection \<open>Column storage\<close>

text \<open>
  pandas stores a column of Python objects that holds integers of 64 bits, at least one
  missing value and no string as \<open>float64\<close>: every integer becomes the nearest float,
  \<open>None\<close> becomes \<open>NaN\<close>. A column of integers only stays a column of integers, and a
  column with a string stays a column of objects. \<open>double_of_int\<close> is the integer value
  of \<open>float(i)\<close>: \<open>i\<close> rounded to 53 significant bits, ties to even.
\<close>

function bit_length :: "int \<Rightarrow> nat" where
  "bit_length a = (if a \<le> 0 then 0 else Suc (bit_length (a div 2)))"
  by pat_completeness auto

termination
  by (relation "measure nat") auto

declare bit_length.simps [simp del]

definition double_of_int :: "int \<Rightarrow> int" where
  "double_of_int i =
     (let a = \<bar>i\<bar>; k = bit_length a - 53
      in if k = 0 then i
         else (let q = a div 2 ^ k; r = a mod 2 ^ k; half = 2 ^ (k - 1);
                   m = (if r < half then q else if r > half then q + 1
                        else if even q then q else q + 1)
               in sgn i * m * 2 ^ k))"

definition int64_range :: "int \<Rightarrow> bool" where
  "int64_range i = (- (2 ^ 63) \<le> i \<and> i < 2 ^ 63)"

definition infer_objects :: "fcell list \<Rightarrow> fcell list" where
  "infer_objects vals =
     (if list_all (\<lambda>v. case v of FStr s \<Rightarrow> False | FInt i \<Rightarrow> int64_range i | _ \<Rightarrow> True) vals
         \<and> list_ex (\<lambda>v. case v of FInt i \<Rightarrow> True | _ \<Rightarrow> False) vals
         \<and> list_ex (\<lambda>v. v = FNone) vals
      then map (\<lambda>v. case v of FInt i \<Rightarrow> FFloat (of_int (double_of_int i)) | _ \<Rightarrow> v) vals
      else vals)"

text \<open>
  \<open>pd.DataFrame(data, columns=cleaned_columns)\<close> for a non-empty list of rows: short rows
  are padded with missing values, the constructor raises \<open>ValueError\<close> unless the longest
  row has as many cells as there are column names, and every column is stored as
  described above.
\<close>

definition make_frame :: "cell list list \<Rightarrow> string list \<Rightarrow> cerr + fcell frame" where
  "make_frame data columns =
     (if fold max (map length data) 0 \<noteq> length columns then Inl ValueError
      else Inr (map (\<lambda>(j, name).
                      (name, infer_objects (map (\<lambda>row. if j < length row then of_cell (row ! j) else FNone) data)))
                  (enumerate 0 columns)))"

subsection \<open>Value cleaning\<close>

definition missing_indicators :: "string list" where
  "missing_indicators = [''N/A'', ''n/a'', ''NA'', ''null'', ''NULL'', ''None'', ''NONE'', ''-'', ''--'', ''---'']"

text \<open>\<open>x.strip() if isinstance(x, str) else x\<close>.\<close>

definition trim :: "fcell \<Rightarrow> fcell" where
  "trim v = (case v of FStr s \<Rightarrow> FStr (strip s) | _ \<Rightarrow> v)"

text \<open>\<open>df.replace(\<dots>, None)\<close> on one column: the strings selected by \<open>p\<close> become missing.\<close>

definition replace_str :: "(string \<Rightarrow> bool) \<Rightarrow> fcell list \<Rightarrow> fcell list" where
  "replace_str p vals = map (\<lambda>v. case v of FStr s \<Rightarrow> if p s then FNone else v | _ \<Rightarrow> v) vals"

text \<open>
  \<open>df.fillna(value)\<close> on one column: in a \<open>float64\<close> column an integer is filled in as a
  float.
\<close>

definition fillna :: "cell \<Rightarrow> fcell list \<Rightarrow> fcell list" where
  "fillna r vals =
     (let fill = (case r of
                    CInt k \<Rightarrow> if list_ex (\<lambda>v. case v of FFloat x \<Rightarrow> True | _ \<Rightarrow> False) vals
                              then FFloat (of_int (double_of_int k)) else FInt k
                  | _ \<Rightarrow> of_cell r)
      in map (\<lambda>v. if v = FNone then fill else v) vals)"

text \<open>
  What \<open>clean_dataframe\<close> does to one column, step by step. The replacement by regular
  expression ends with pandas storing the columns of objects anew, so a column of
  integers whose only strings were empty or blank continues as \<open>float64\<close>; the
  replacements of a fixed string by \<open>None\<close> keep the column as it is stored.
\<close>

definition clean_column :: "clean_config \<Rightarrow> fcell list \<Rightarrow> fcell list" where
  "clean_column cfg vals =
     (let c1 = (if trim_whitespace cfg then map trim vals else vals);
          c2 = replace_str (\<lambda>s. s = []) c1;
          c3 = infer_objects (replace_str (list_all is_space) c2);
          c4 = fold (\<lambda>indicator. replace_str (\<lambda>s. s = indicator)) missing_indicators c3
      in case replace_missing_with cfg of None \<Rightarrow> c4 | Some r \<Rightarrow> fillna r c4)"

definition clean_dataframe :: "clean_config \<Rightarrow> fcell frame \<Rightarrow> fcell frame" where
  "clean_dataframe cfg df = map (\<lambda>(name, vals). (name, clean_column cfg vals)) df"

subsection \<open>Type inference\<close>

datatype col_type = ColBoolean | ColDate | ColInteger | ColFloat | ColCategorical | ColText | ColUnknown

definition boolean_values :: "string list" where
  "boolean_values =
     [''true'', ''false'', ''yes'', ''no'', ''y'', ''n'', ''1'', ''0'', ''on'', ''off'', ''enabled'', ''disabled'']"

text \<open>\<open>df[col].dropna()\<close>.\<close>

definition dropna :: "fcell list \<Rightarrow> fcell list" where
  "dropna vals = filter (\<lambda>v. v \<noteq> FNone) vals"

text \<open>\<open>data.astype(str).str.lower()\<close> renders every value as \<open>str\<close> does.\<close>

definition is_boolean_column :: "('e, 'x) ext_scheme \<Rightarrow> fcell list \<Rightarrow> bool" where
  "is_boolean_column ext data =
     (let unique_values = remdups (map (\<lambda>v. lower (fstr ext v)) data)
      in length unique_values \<le> 2 \<and> list_all (\<lambda>s. s \<in> set boolean_values) unique_values)"

text \<open>
  \<open>pandas.to_numeric(\<dots>, errors='coerce')\<close> on one value, \<open>None\<close> standing for \<open>NaN\<close>: a
  float is a number already, a missing value is \<open>NaN\<close>.
\<close>

definition numeric_value :: "('e, 'x) ext_scheme \<Rightarrow> fcell \<Rightarrow> rat option" where
  "numeric_value ext v =
     (case v of
        FNone \<Rightarrow> None
      | FFloat r \<Rightarrow> Some r
      | FInt i \<Rightarrow> to_numeric ext (CInt i)
      | FStr s \<Rightarrow> to_numeric ext (CStr s))"

definition is_numeric_column :: "('e, 'x) ext_scheme \<Rightarrow> fcell list \<Rightarrow> bool" where
  "is_numeric_column ext data =
     (ratio (length (filter (\<lambda>v. numeric_value ext v = None) data)) (length data) < 1 / 10)"

definition is_integer_column :: "('e, 'x) ext_scheme \<Rightarrow> fcell list \<Rightarrow> bool" where
  "is_integer_column ext data =
     list_all (\<lambda>v. case numeric_value ext v of None \<Rightarrow> True | Some r \<Rightarrow> is_integral r) data"

definition is_categorical_column :: "fcell list \<Rightarrow> bool" where
  "is_categorical_column data =
     (ratio (length (remdups data)) (length data) < 1 / 2 \<and> length (remdups data) < 100)"

text \<open>
  The cascade for one column. \<open>sample ext col_data 100\<close> is the random
  \<open>col_data.sample(n=100)\<close>, drawn only from columns of more than 100 values.
\<close>

definition infer_column_type :: "('e, 'x) ext_scheme \<Rightarrow> string \<Rightarrow> fcell list \<Rightarrow> col_type" where
  "infer_column_type ext col vals =
     (let col_data = dropna vals
      in if length col_data = 0 then ColUnknown
         else (let sample_size = min 100 (length col_data);
                   smp = (if length col_data > sample_size then sample ext col_data sample_size else col_data)
               in if is_boolean_column ext smp then ColBoolean
                  else if is_date_column ext col smp then ColDate
                  else if is_numeric_column ext smp
                  then (if is_integer_column ext smp then ColInteger else ColFloat)
                  else if is_categorical_column col_data then ColCategorical
                  else ColText))"

definition infer_column_types :: "('e, 'x) ext_scheme \<Rightarrow> fcell frame \<Rightarrow> (string \<times> col_type) list" where
  "infer_column_types ext df = map (\<lambda>(col, vals). (col, infer_column_type ext col vals)) df"

subsection \<open>Type application\<close>

definition to_dval :: "fcell \<Rightarrow> dval" where
  "to_dval v = (case v of FNone \<Rightarrow> VNone | FStr s \<Rightarrow> VStr s | FInt i \<Rightarrow> VInt i | FFloat r \<Rightarrow> VNum r)"

text \<open>
  \<open>pd.to_numeric(\<dots>, errors='coerce').fillna(0).astype('Int64')\<close>: the cast raises when a
  value has a fractional part.
\<close>

definition to_int64 :: "('e, 'x) ext_scheme \<Rightarrow> fcell list \<Rightarrow> cerr + dval list" where
  "to_int64 ext vals =
     (let filled = map (\<lambda>v. case numeric_value ext v of None \<Rightarrow> 0 | Some r \<Rightarrow> r) vals
      in if list_all is_integral filled then Inr (map (\<lambda>r. VInt \<lfloor>r\<rfloor>) filled) else Inl ValueError)"

definition convert_to_boolean :: "('e, 'x) ext_scheme \<Rightarrow> fcell \<Rightarrow> dval" where
  "convert_to_boolean ext v =
     (if v = FNone then VNone
      else (let str_value = strip (lower (fstr ext v))
            in if str_value \<in> set [''true'', ''yes'', ''y'', ''1'', ''on'', ''enabled''] then VBool True
               else if str_value \<in> set [''false'', ''no'', ''n'', ''0'', ''off'', ''disabled''] then VBool False
               else VNone))"

text \<open>
  \<open>cleaner_date s\<close> is the \<open>'%Y-%m-%d'\<close> rendering of what the cleaner's own \<open>parse_date\<close>
  (\<open>datetime.strptime\<close> over \<open>date_formats\<close>, then \<open>pandas.to_datetime\<close>) returns for a
  non-empty string, if it returns a date.
\<close>

definition standardize_date :: "('e, 'x) ext_scheme \<Rightarrow> fcell \<Rightarrow> dval" where
  "standardize_date ext v =
     (if v = FNone then VNone
      else (case (if fstr ext v = [] then None else cleaner_date ext (fstr ext v)) of
              Some d \<Rightarrow> VStr d
            | None \<Rightarrow> VStr (fstr ext v)))"

text \<open>
  The conversion of one column in \<open>apply_data_types\<close>; a conversion that raises is logged
  and leaves the column as it was.
\<close>

definition convert_column :: "clean_config \<Rightarrow> ('e, 'x) ext_scheme \<Rightarrow> col_type option \<Rightarrow> fcell list \<Rightarrow> dval list" where
  "convert_column cfg ext dtype vals =
     (if dtype = Some ColInteger
      then (case to_int64 ext vals of Inr xs \<Rightarrow> xs | Inl e \<Rightarrow> map to_dval vals)
      else if dtype = Some ColFloat
      then map (\<lambda>v. case numeric_value ext v of None \<Rightarrow> VNone | Some r \<Rightarrow> VNum r) vals
      else if dtype = Some ColBoolean then map (convert_to_boolean ext) vals
      else if dtype = Some ColDate \<and> standardize_dates cfg then map (standardize_date ext) vals
      else map to_dval vals)"

definition apply_data_types ::
    "clean_config \<Rightarrow> ('e, 'x) ext_scheme \<Rightarrow> fcell frame \<Rightarrow> (string \<times> col_type) list \<Rightarrow> dval frame" where
  "apply_data_types cfg ext df data_types =
     map (\<lambda>(col, vals). (col, convert_column cfg ext (map_of data_types col) vals)) df"

subsection \<open>Statistics\<close>

text \<open>\<open>round(x, 2)\<close>: to the nearest hundredth, ties to the even one.\<close>

definition round_half_even :: "rat \<Rightarrow> int" where
  "round_half_even x =
     (let f = \<lfloor>x\<rfloor>; d = x - of_int f
      in if d < 1 / 2 then f else if d > 1 / 2 then f + 1 else if even f then f else f + 1)"

definition round2 :: "rat \<Rightarrow> rat" where
  "round2 x = of_int (round_half_even (x * 100)) / 100"

definition calculate_missing_values :: "dval frame \<Rightarrow> (string \<times> nat \<times> rat) list" where
  "calculate_missing_values df =
     map (\<lambda>(col, vals).
            (let missing_count = length (filter (\<lambda>v. v = VNone) vals)
             in (col, missing_count,
                 if frame_len df > 0 then round2 (of_nat missing_count / of_nat (frame_len df) * 100) else 0)))
       df"

text \<open>
  The part of a column description that every type has; the statistics that depend on the
  type (minimum, mean, lengths, \<dots>) are not represented.
\<close>

record description =
  desc_type :: col_type
  non_null_count :: nat
  null_count :: nat
  unique_count :: nat

definition generate_column_descriptions :: "dval frame \<Rightarrow> (string \<times> col_type) list \<Rightarrow> (string \<times> description) list" where
  "generate_column_descriptions df data_types =
     map (\<lambda>(col, vals).
            (let col_data = filter (\<lambda>v. v \<noteq> VNone) vals
             in (col, \<lparr>desc_type = (case map_of data_types col of None \<Rightarrow> ColUnknown | Some t \<Rightarrow> t),
                       non_null_count = length col_data,
                       null_count = frame_len df - length col_data,
                       unique_count = length (remdups col_data)\<rparr>)))
       df"

subsection \<open>The cleaning of a table\<close>

text \<open>\<open>df.values.tolist()\<close>: the rows of a frame.\<close>

definition frame_rows :: "'v frame \<Rightarrow> 'v list list" where
  "frame_rows df = map (\<lambda>i. map (\<lambda>c. snd c ! i) df) [0..<frame_len df]"

text \<open>
  The dictionary returned by \<open>clean_structured_data\<close>. \<open>r_enhanced\<close> stands for the four
  keys merged in from \<open>generate_enhanced_metadata\<close>, which the empty result does not have.
\<close>

record 'm cleaned =
  r_columns :: "string list"
  r_data :: "dval list list"
  r_data_types :: "(string \<times> col_type) list"
  r_row_count :: nat
  r_missing_values :: "(string \<times> nat \<times> rat) list"
  r_descriptions :: "(string \<times> description) list"
  r_enhanced :: "'m option"

definition empty_result :: "'m cleaned" where
  "empty_result =
     \<lparr>r_columns = [], r_data = [], r_data_types = [], r_row_count = 0,
      r_missing_values = [], r_descriptions = [], r_enhanced = None\<rparr>"

text \<open>
  \<open>generate_enhanced_metadata\<close> rests on the entity detector and is not modelled: the
  parameter \<open>enhanced_metadata\<close> gives its result for the converted frame, or the error
  it raises.
\<close>

definition clean_structured_data ::
    "clean_config \<Rightarrow> (dval frame \<Rightarrow> (string \<times> col_type) list \<Rightarrow> cerr + 'm, 'x) ext_scheme \<Rightarrow> table_data
      \<Rightarrow> cerr + 'm cleaned" where
  "clean_structured_data cfg ext table =
     (if td_columns table = [] \<or> td_data table = [] then Inr empty_result
      else (let cleaned_columns = clean_column_names (td_columns table)
            in case make_frame (td_data table) cleaned_columns of
                 Inl e \<Rightarrow> Inl e
               | Inr df0 \<Rightarrow>
                   (let df1 = clean_dataframe cfg df0;
                        data_types = (if infer_data_types cfg then infer_column_types ext df1 else []);
                        df = apply_data_types cfg ext df1 data_types;
                        missing_values = calculate_missing_values df;
                        descriptions = generate_column_descriptions df data_types
                    in case enhanced_metadata ext df data_types of
                         Inl e \<Rightarrow> Inl e
                       | Inr enhanced \<Rightarrow>
                           (let cleaned_data = (if remove_duplicates cfg then remdups (frame_rows df)
                                                else frame_rows df)
                            in Inr \<lparr>r_columns = map fst df, r_data = cleaned_data,
                                    r_data_types = data_types, r_row_count = length cleaned_data,
                                    r_missing_values = missing_values, r_descriptions = descriptions,
                                    r_enhanced = Some enhanced\<rparr>))))"

text \<open>\<open>process_structured_data\<close> of the pipeline: extraction, then cleaning.\<close>

definition process_structured_data ::
    "clean_config \<Rightarrow> (dval frame \<Rightarrow> (string \<times> col_type) list \<Rightarrow> cerr + 'm, 'x) ext_scheme \<Rightarrow> grid \<Rightarrow> decision
      \<Rightarrow> cerr + 'm cleaned" where
  "process_structured_data cfg ext data info = clean_structured_data cfg ext (extract_table data info)"


section \<open>Verification: generic facts\<close>

lemma foldl_inv: "P s \<Longrightarrow> (\<And>s x. P s \<Longrightarrow> x \<in> set xs \<Longrightarrow> P (f s x)) \<Longrightarrow> P (foldl f s xs)"
  by (induction xs arbitrary: s) simp_all

lemma foldl_id: "(\<And>s x. x \<in> set xs \<Longrightarrow> f s x = s) \<Longrightarrow> foldl f s xs = s"
  by (induction xs arbitrary: s) simp_all

section \<open>Verification: the region finder\<close>

subsection \<open>The flood fill\<close>

text \<open>
  \<open>data_cells\<close> are the positions set in the boolean matrix. While one region is filled,
  starting from the visited set \<open>V0\<close>, the visited set is \<open>V0\<close> plus the stack plus the
  cells popped so far; stack and cells never repeat a position, never touch \<open>V0\<close>, and
  hold positions with data only.
\<close>

definition data_cells :: "(nat \<Rightarrow> nat \<Rightarrow> bool) \<Rightarrow> nat \<Rightarrow> nat \<Rightarrow> pos set" where
  "data_cells dm rows cols = {(r, c). r < rows \<and> c < cols \<and> dm r c}"

definition fill_inv :: "(nat \<Rightarrow> nat \<Rightarrow> bool) \<Rightarrow> nat \<Rightarrow> nat \<Rightarrow> pos set \<Rightarrow> fill \<Rightarrow> bool" where
  "fill_inv dm rows cols V0 st =
     (f_visited st = V0 \<union> set (f_stack st) \<union> set (f_cells st) \<and>
      distinct (f_stack st @ f_cells st) \<and>
      set (f_stack st @ f_cells st) \<inter> V0 = {} \<and>
      set (f_stack st @ f_cells st) \<subseteq> data_cells dm rows cols)"

lemma visit_inv: "fill_inv dm rows cols V0 st \<Longrightarrow> fill_inv dm rows cols V0 (visit dm rows cols p st d)"
  by (auto simp: fill_inv_def visit_def Let_def data_cells_def)

lemma visits_inv:
  "fill_inv dm rows cols V0 st \<Longrightarrow> fill_inv dm rows cols V0 (foldl (visit dm rows cols p) st ds)"
  by (induction ds arbitrary: st) (simp_all add: visit_inv)

lemma pop_inv:
  "fill_inv dm rows cols V0 st \<Longrightarrow> f_stack st = p # rest \<Longrightarrow>
   fill_inv dm rows cols V0 (st\<lparr>f_stack := rest, f_cells := f_cells st @ [p]\<rparr>)"
  by (auto simp: fill_inv_def)

lemma flood_inv:
  "fill_inv dm rows cols V0 st \<Longrightarrow>
   fill_inv dm rows cols V0 (flood dm rows cols st) \<and> f_stack (flood dm rows cols st) = []"
proof (induction dm rows cols st rule: flood.induct)
  case (1 dm rows cols st)
  show ?case
  proof (cases "f_stack st")
    case Nil
    with "1.prems" show ?thesis by (simp add: flood.simps)
  next
    case (Cons p rest)
    let ?st' = "foldl (visit dm rows cols p) (st\<lparr>f_stack := rest, f_cells := f_cells st @ [p]\<rparr>) directions"
    have "fill_inv dm rows cols V0 ?st'"
      using "1.prems" Cons by (intro visits_inv pop_inv)
    from "1.IH" [OF Cons this]
    have "fill_inv dm rows cols V0 (flood dm rows cols ?st') \<and> f_stack (flood dm rows cols ?st') = []" .
    moreover have "flood dm rows cols st = flood dm rows cols ?st'"
      using Cons by (subst flood.simps) simp
    ultimately show ?thesis by simp
  qed
qed

lemma expand_region_props:
  assumes "start \<in> data_cells dm rows cols" and "start \<notin> V"
    and "expand_region dm rows cols V start = (reg, V')"
  shows "V' = V \<union> set (cells reg) \<and> distinct (cells reg) \<and> set (cells reg) \<inter> V = {} \<and>
         set (cells reg) \<subseteq> data_cells dm rows cols \<and> area reg = length (cells reg)"
proof -
  let ?st0 = "\<lparr>f_visited = insert start V, f_stack = [start], f_cells = [],
               f_min_row = fst start, f_max_row = fst start,
               f_min_col = snd start, f_max_col = snd start\<rparr>"
  have "fill_inv dm rows cols V ?st0"
    using assms(1,2) by (simp add: fill_inv_def)
  from flood_inv [OF this] have inv: "fill_inv dm rows cols V (flood dm rows cols ?st0)"
    and st: "f_stack (flood dm rows cols ?st0) = []" by simp_all
  from assms(3) have reg: "cells reg = f_cells (flood dm rows cols ?st0)"
      "area reg = length (f_cells (flood dm rows cols ?st0))"
    and V': "V' = f_visited (flood dm rows cols ?st0)"
    by (auto simp: expand_region_def Let_def)
  from inv st reg V' show ?thesis by (auto simp: fill_inv_def)
qed

subsection \<open>The row-major scan\<close>

definition disjoint_regions :: "region list \<Rightarrow> bool" where
  "disjoint_regions regs =
     (\<forall>i < length regs. \<forall>j < length regs.
        i \<noteq> j \<longrightarrow> set (cells (regs ! i)) \<inter> set (cells (regs ! j)) = {})"

definition scan_inv :: "(nat \<Rightarrow> nat \<Rightarrow> bool) \<Rightarrow> nat \<Rightarrow> nat \<Rightarrow> pos set \<times> region list \<Rightarrow> bool" where
  "scan_inv dm rows cols s =
     ((\<forall>reg \<in> set (snd s). set (cells reg) \<subseteq> fst s \<and> set (cells reg) \<subseteq> data_cells dm rows cols \<and>
          distinct (cells reg) \<and> area reg = length (cells reg) \<and> 2 \<le> area reg) \<and>
      disjoint_regions (snd s))"

lemma disjoint_regions_snoc:
  assumes "disjoint_regions regs" and "\<forall>r \<in> set regs. set (cells r) \<inter> set (cells reg) = {}"
  shows "disjoint_regions (regs @ [reg])"
  unfolding disjoint_regions_def
proof (intro allI impI)
  fix i j
  assume i: "i < length (regs @ [reg])" and j: "j < length (regs @ [reg])" and ne: "i \<noteq> j"
  consider "i < length regs" "j < length regs"
    | "i < length regs" "j = length regs"
    | "i = length regs" "j < length regs"
    using i j ne by (auto simp: less_Suc_eq)
  then show "set (cells ((regs @ [reg]) ! i)) \<inter> set (cells ((regs @ [reg]) ! j)) = {}"
  proof cases
    case 1
    with assms(1) ne show ?thesis by (simp add: disjoint_regions_def nth_append)
  next
    case 2
    with assms(2) have "set (cells (regs ! i)) \<inter> set (cells reg) = {}" by simp
    with 2 show ?thesis by (simp add: nth_append)
  next
    case 3
    with assms(2) have "set (cells (regs ! j)) \<inter> set (cells reg) = {}" by simp
    with 3 show ?thesis by (auto simp: nth_append)
  qed
qed

lemma scan_cell_inv:
  assumes "scan_inv dm rows cols s" and "fst p < rows" and "snd p < cols"
  shows "scan_inv dm rows cols (scan_cell dm rows cols s p)"
proof (cases "dm (fst p) (snd p) \<and> p \<notin> fst s")
  case False
  then have "scan_cell dm rows cols s p = s" by (auto simp: scan_cell_def)
  with assms(1) show ?thesis by simp
next
  case True
  obtain reg V' where e: "expand_region dm rows cols (fst s) p = (reg, V')"
    by (cases "expand_region dm rows cols (fst s) p")
  have "p \<in> data_cells dm rows cols"
    using True assms(2,3) by (cases p) (simp add: data_cells_def)
  from expand_region_props [OF this _ e] True
  have props: "V' = fst s \<union> set (cells reg)" "distinct (cells reg)" "set (cells reg) \<inter> fst s = {}"
    "set (cells reg) \<subseteq> data_cells dm rows cols" "area reg = length (cells reg)"
    by simp_all
  show ?thesis
  proof (cases "area reg > 1")
    case False
    with True e have "scan_cell dm rows cols s p = (V', snd s)"
      by (simp add: scan_cell_def)
    with assms(1) props(1) show ?thesis by (auto simp: scan_inv_def)
  next
    case big: True
    with True e have sc: "scan_cell dm rows cols s p = (V', snd s @ [reg])"
      by (simp add: scan_cell_def)
    have "\<forall>r \<in> set (snd s). set (cells r) \<inter> set (cells reg) = {}"
      using assms(1) props(3) by (auto simp: scan_inv_def)
    with assms(1) have "disjoint_regions (snd s @ [reg])"
      by (intro disjoint_regions_snoc) (simp_all add: scan_inv_def)
    with assms(1) props big show ?thesis
      unfolding sc by (auto simp: scan_inv_def)
  qed
qed

lemma scan_row_inv:
  assumes "scan_inv dm rows cols s" and "i < rows"
  shows "scan_inv dm rows cols (scan_row dm rows cols s i)"
  unfolding scan_row_def
  by (rule foldl_inv [where P = "scan_inv dm rows cols"]) (use assms in \<open>simp_all add: scan_cell_inv\<close>)

lemma scan_inv_final:
  "scan_inv dm rows cols (foldl (scan_row dm rows cols) ({}, []) [0..<rows])"
  by (rule foldl_inv [where P = "scan_inv dm rows cols"])
     (simp_all add: scan_row_inv, simp add: scan_inv_def disjoint_regions_def)

subsection \<open>Grids without data\<close>

lemma scan_row_no_data:
  assumes "\<And>i j. \<not> dm i j"
  shows "scan_row dm rows cols s i = s"
  unfolding scan_row_def using assms by (intro foldl_id) (simp add: scan_cell_def)

lemma find_data_regions_no_data:
  assumes "\<And>i j. \<not> data_matrix data i j"
  shows "find_data_regions data = []"
  using assms by (simp add: find_data_regions_def Let_def foldl_id scan_row_no_data)

lemma all_none_no_data:
  assumes "\<forall>row \<in> set data. \<forall>c \<in> set row. c = CNone"
  shows "\<not> data_matrix data i j"
proof
  assume d: "data_matrix data i j"
  then have "data ! i \<in> set data" and "data ! i ! j \<in> set (data ! i)"
    by (simp_all add: data_matrix_def)
  with assms have "data ! i ! j = CNone" by blast
  with d show False by (simp add: data_matrix_def non_empty_def)
qed

section \<open>Verification: the structure detector\<close>

subsection \<open>The mixed flag\<close>

lemma analyze_step_mixed: "mixed_structure (analyze_step cfg data a reg) = mixed_structure a"
  by (simp add: analyze_step_def Let_def)

lemma analyze_fold_mixed: "mixed_structure (foldl (analyze_step cfg data) a regs) = mixed_structure a"
  by (induction regs arbitrary: a) (simp_all add: analyze_step_mixed)

lemma mixed_structure_iff:
  "mixed_structure (analyze_data_patterns cfg data) =
     (has_table_structure (analyze_data_patterns cfg data) \<and>
      has_key_value_pairs (analyze_data_patterns cfg data))"
  by (simp add: analyze_data_patterns_def Let_def analyze_fold_mixed initial_analysis_def)

text \<open>
  The branch of \<open>detect_structure\<close> that answers \<open>semi_structured\<close> comes after the tests of
  \<open>has_table_structure\<close> and \<open>has_key_value_pairs\<close>, and \<open>mixed_structure\<close> is only set when
  both hold: no grid reaches it.
\<close>

lemma detect_structure_never_semi_structured:
  "d_type (detect_structure cfg data) \<noteq> SemiStructured"
  by (simp add: detect_structure_def Let_def mixed_structure_iff)

subsection \<open>Header and data rows of a table region\<close>

lemma check_table_is_table:
  assumes "is_table (check_table_structure cfg rd)"
  shows "\<exists>hi. header_index (check_table_structure cfg rd) = Some hi \<and>
              data_start_index (check_table_structure cfg rd) = Some (hi + 1) \<and> hi + 1 < length rd"
  using assms
  by (auto simp: check_table_structure_def not_table_def Let_def split: if_splits option.splits)

lemma length_region_data: "length (region_data data reg) \<le> max_row reg + 1 - min_row reg"
  by (simp add: region_data_def)

lemma analyze_region_table:
  assumes "rt_type (analyze_region cfg data reg) = Table"
  shows "\<exists>h. rt_header_row (analyze_region cfg data reg) = Some h \<and>
             rt_data_start_row (analyze_region cfg data reg) = Some (h + 1) \<and> h + 1 \<le> max_row reg"
proof -
  let ?rd = "region_data data reg"
  from assms have t: "is_table (check_table_structure cfg ?rd)"
    by (auto simp: analyze_region_def Let_def split: if_splits)
  from check_table_is_table [OF t] obtain hi where
    hi: "header_index (check_table_structure cfg ?rd) = Some hi"
        "data_start_index (check_table_structure cfg ?rd) = Some (hi + 1)"
        "hi + 1 < length ?rd" by blast
  from hi(3) length_region_data [of data reg] have "min_row reg + hi + 1 \<le> max_row reg" by arith
  with t hi show ?thesis by (simp add: analyze_region_def Let_def)
qed

definition table_inv :: "analysis \<Rightarrow> bool" where
  "table_inv a =
     ((has_table_structure a \<longrightarrow> table_bounds a \<noteq> None) \<and>
      (\<forall>b. table_bounds a = Some b \<longrightarrow>
         (\<exists>h. header_row a = Some h \<and> data_start_row a = Some (h + 1) \<and> h + 1 \<le> max_row b)))"

lemma analyze_step_inv: "table_inv a \<Longrightarrow> table_inv (analyze_step cfg data a reg)"
  using analyze_region_table [of cfg data reg]
  by (auto simp: table_inv_def analyze_step_def Let_def)

lemma analyze_data_patterns_inv: "table_inv (analyze_data_patterns cfg data)"
proof -
  have "table_inv (initial_analysis\<lparr>regions := find_data_regions data\<rparr>)"
    by (simp add: table_inv_def initial_analysis_def)
  then have "table_inv (foldl (analyze_step cfg data) (initial_analysis\<lparr>regions := find_data_regions data\<rparr>)
                          (find_data_regions data))"
    by (rule foldl_inv) (rule analyze_step_inv)
  then show ?thesis
    by (auto simp: analyze_data_patterns_def Let_def table_inv_def initial_analysis_def)
qed

subsection \<open>Example grids\<close>

text \<open>A table block, an empty row, and a one-row key-value block.\<close>

definition mixed_grid :: grid where
  "mixed_grid =
     [[CStr ''Name'', CStr ''Revenue''],
      [CStr ''Acme'', CStr ''100''],
      [CStr ''Beta'', CStr ''200''],
      [CNone, CNone],
      [CStr ''name:'', CStr ''x'']]"

definition table_grid :: grid where
  "table_grid =
     [[CStr ''Name'', CStr ''Revenue''],
      [CStr ''Acme'', CStr ''100''],
      [CStr ''Beta'', CStr ''200'']]"

lemma mixed_grid_regions:
  "find_data_regions mixed_grid =
     [\<lparr>min_row = 0, max_row = 2, min_col = 0, max_col = 1, area = 6,
        cells = [(0, 0), (1, 0), (2, 0), (2, 1), (1, 1), (0, 1)]\<rparr>,
      \<lparr>min_row = 4, max_row = 4, min_col = 0, max_col = 1, area = 2, cells = [(4, 0), (4, 1)]\<rparr>]"
  by code_simp

lemma mixed_grid_kinds:
  "map (\<lambda>reg. rt_type (analyze_region default_config mixed_grid reg)) (find_data_regions mixed_grid)
     = [Table, KeyValue]"
  by code_simp

lemma mixed_grid_decision:
  "detect_structure default_config mixed_grid =
     \<lparr>d_type = Structured, d_confidence = 1,
      d_table_bounds =
        Some \<lparr>min_row = 0, max_row = 2, min_col = 0, max_col = 1, area = 6,
               cells = [(0, 0), (1, 0), (2, 0), (2, 1), (1, 1), (0, 1)]\<rparr>,
      d_header_row = Some 0, d_data_start_row = Some 1,
      d_key_value_regions = None, d_regions = None,
      d_details =
        Some \<lparr>has_table_structure = True, has_key_value_pairs = True, mixed_structure = True,
               table_confidence = 1, kv_confidence = 1 / 3, overall_confidence = 2 / 3,
               table_bounds =
                 Some \<lparr>min_row = 0, max_row = 2, min_col = 0, max_col = 1, area = 6,
                        cells = [(0, 0), (1, 0), (2, 0), (2, 1), (1, 1), (0, 1)]\<rparr>,
               header_row = Some 0, data_start_row = Some 1,
               key_value_regions =
                 [\<lparr>min_row = 4, max_row = 4, min_col = 0, max_col = 1, area = 2,
                    cells = [(4, 0), (4, 1)]\<rparr>],
               regions =
                 [\<lparr>min_row = 0, max_row = 2, min_col = 0, max_col = 1, area = 6,
                    cells = [(0, 0), (1, 0), (2, 0), (2, 1), (1, 1), (0, 1)]\<rparr>,
                  \<lparr>min_row = 4, max_row = 4, min_col = 0, max_col = 1, area = 2,
                    cells = [(4, 0), (4, 1)]\<rparr>]\<rparr>\<rparr>"
  by code_simp

lemma table_grid_decision:
  "detect_structure default_config table_grid =
     \<lparr>d_type = Structured, d_confidence = 1,
      d_table_bounds =
        Some \<lparr>min_row = 0, max_row = 2, min_col = 0, max_col = 1, area = 6,
               cells = [(0, 0), (1, 0), (2, 0), (2, 1), (1, 1), (0, 1)]\<rparr>,
      d_header_row = Some 0, d_data_start_row = Some 1,
      d_key_value_regions = None, d_regions = None,
      d_details =
        Some \<lparr>has_table_structure = True, has_key_value_pairs = False, mixed_structure = False,
               table_confidence = 1, kv_confidence = 0, overall_confidence = 1,
               table_bounds =
                 Some \<lparr>min_row = 0, max_row = 2, min_col = 0, max_col = 1, area = 6,
                        cells = [(0, 0), (1, 0), (2, 0), (2, 1), (1, 1), (0, 1)]\<rparr>,
               header_row = Some 0, data_start_row = Some 1,
               key_value_regions = [],
               regions =
                 [\<lparr>min_row = 0, max_row = 2, min_col = 0, max_col = 1, area = 6,
                    cells = [(0, 0), (1, 0), (2, 0), (2, 1), (1, 1), (0, 1)]\<rparr>]\<rparr>\<rparr>"
  by code_simp

section \<open>The claims\<close>

text \<open>
  Claim C1. On a grid in which region analysis finds a table region and a key-value
  region, \<open>detect_structure\<close> should answer \<open>semi_structured\<close> with the mean of the two
  maximal confidences. The code does not: on \<open>mixed_grid\<close> the two regions are classified
  as a table (confidence 1) and as key-value (confidence 1/3), \<open>analyze_data_patterns\<close>
  sets \<open>mixed_structure\<close> and the mean 2/3 as \<open>overall_confidence\<close>, and \<open>detect_structure\<close>
  still answers \<open>structured\<close> with confidence 1, because it tests \<open>has_table_structure\<close> first.
\<close>

theorem detect_structure_mixed_grid:
  "map (\<lambda>reg. rt_type (analyze_region default_config mixed_grid reg)) (find_data_regions mixed_grid)
     = [Table, KeyValue] \<and>
   map_option mixed_structure (d_details (detect_structure default_config mixed_grid)) = Some True \<and>
   map_option overall_confidence (d_details (detect_structure default_config mixed_grid)) = Some (2 / 3) \<and>
   d_type (detect_structure default_config mixed_grid) = Structured \<and>
   d_confidence (detect_structure default_config mixed_grid) = 1"
  by (simp add: mixed_grid_kinds mixed_grid_decision)

text \<open>
  Claim C4, as stated: a non-empty grid of \<open>None\<close> cells gets type \<open>empty\<close> with
  confidence 1.0. It fails on the grid with the single row \<open>[None, None]\<close>: the type is
  \<open>unknown\<close> and the confidence 0.
\<close>

theorem all_none_grid_is_not_empty_type:
  "[[CNone, CNone]] \<noteq> ([] :: grid) \<and>
   d_type (detect_structure default_config [[CNone, CNone]]) = UnknownSheet \<and>
   d_type (detect_structure default_config [[CNone, CNone]]) \<noteq> EmptySheet \<and>
   d_confidence (detect_structure default_config [[CNone, CNone]]) = 0 \<and>
   d_confidence (detect_structure default_config [[CNone, CNone]]) \<noteq> 1"
proof -
  have "detect_structure default_config [[CNone, CNone]] =
     \<lparr>d_type = UnknownSheet, d_confidence = 0, d_table_bounds = None, d_header_row = None,
      d_data_start_row = None, d_key_value_regions = None, d_regions = None,
      d_details = Some initial_analysis\<rparr>"
    by code_simp
  then show ?thesis by simp
qed

text \<open>
  Claim C4, amended: for every non-empty grid all of whose cells are \<open>None\<close>,
  \<open>detect_structure\<close> returns type \<open>unknown\<close> with confidence 0.0, and no region is
  discovered (type \<open>empty\<close> is kept for the grid without rows).
\<close>

theorem all_none_grid_unknown:
  assumes "data \<noteq> []" and "\<forall>row \<in> set data. \<forall>c \<in> set row. c = CNone"
  shows "d_type (detect_structure cfg data) = UnknownSheet \<and>
         d_confidence (detect_structure cfg data) = 0 \<and>
         find_data_regions data = [] \<and>
         map_option regions (d_details (detect_structure cfg data)) = Some []"
proof -
  have "find_data_regions data = []"
    using assms(2) by (intro find_data_regions_no_data all_none_no_data)
  with assms(1) show ?thesis
    by (simp add: detect_structure_def analyze_data_patterns_def initial_analysis_def Let_def)
qed

theorem all_none_grid_unknown_witness:
  "[[CNone, CNone], [CNone]] \<noteq> ([] :: grid) \<and>
   d_type (detect_structure default_config [[CNone, CNone], [CNone]]) = UnknownSheet \<and>
   d_confidence (detect_structure default_config [[CNone, CNone], [CNone]]) = 0 \<and>
   find_data_regions [[CNone, CNone], [CNone]] = [] \<and>
   map_option regions (d_details (detect_structure default_config [[CNone, CNone], [CNone]])) = Some []"
  using all_none_grid_unknown [of "[[CNone, CNone], [CNone]]" default_config] by simp

text \<open>
  Claim C5. For every grid, the regions returned by \<open>find_data_regions\<close> are pairwise
  disjoint, every cell of a region is a non-empty cell of the grid, and every region has
  area at least 2 (the area being the number of its cells).
\<close>

theorem regions_disjoint_nonempty_area:
  "(\<forall>i < length (find_data_regions data). \<forall>j < length (find_data_regions data).
      i \<noteq> j \<longrightarrow>
      set (cells (find_data_regions data ! i)) \<inter> set (cells (find_data_regions data ! j)) = {}) \<and>
   (\<forall>reg \<in> set (find_data_regions data). \<forall>(r, c) \<in> set (cells reg).
      r < length data \<and> c < length (data ! r) \<and> non_empty (data ! r ! c)) \<and>
   (\<forall>reg \<in> set (find_data_regions data). 2 \<le> area reg \<and> area reg = card (set (cells reg)))"
proof (cases "data = []")
  case True
  then show ?thesis by (simp add: find_data_regions_def)
next
  case False
  let ?s = "foldl (scan_row (data_matrix data) (length data) (num_cols data)) ({}, []) [0..<length data]"
  have r: "find_data_regions data = snd ?s"
    using False by (simp add: find_data_regions_def Let_def)
  have inv: "scan_inv (data_matrix data) (length data) (num_cols data) ?s"
    by (rule scan_inv_final)
  have "data_cells (data_matrix data) (length data) (num_cols data)
          \<subseteq> {(r, c). r < length data \<and> c < length (data ! r) \<and> non_empty (data ! r ! c)}"
    by (auto simp: data_cells_def data_matrix_def)
  with inv show ?thesis
    unfolding r by (auto simp: scan_inv_def disjoint_regions_def distinct_card)
qed

theorem regions_disjoint_nonempty_area_witness:
  "length (find_data_regions mixed_grid) = 2 \<and>
   set (cells (find_data_regions mixed_grid ! 0)) \<inter> set (cells (find_data_regions mixed_grid ! 1)) = {} \<and>
   (4, 1) \<in> set (cells (find_data_regions mixed_grid ! 1)) \<and>
   non_empty (mixed_grid ! 4 ! 1) \<and>
   2 \<le> area (find_data_regions mixed_grid ! 0) \<and> 2 \<le> area (find_data_regions mixed_grid ! 1)"
proof -
  have len: "length (find_data_regions mixed_grid) = 2"
    by (simp add: mixed_grid_regions)
  have m1: "find_data_regions mixed_grid ! 1 \<in> set (find_data_regions mixed_grid)"
    and m0: "find_data_regions mixed_grid ! 0 \<in> set (find_data_regions mixed_grid)"
    using len by simp_all
  have c: "(4, 1) \<in> set (cells (find_data_regions mixed_grid ! 1))"
    by (simp add: mixed_grid_regions)
  note t = regions_disjoint_nonempty_area [of mixed_grid]
  from t len have "set (cells (find_data_regions mixed_grid ! 0)) \<inter> set (cells (find_data_regions mixed_grid ! 1)) = {}"
    by simp
  moreover from t m1 c have "non_empty (mixed_grid ! 4 ! 1)" by blast
  moreover from t m0 m1 have "2 \<le> area (find_data_regions mixed_grid ! 0)" "2 \<le> area (find_data_regions mixed_grid ! 1)"
    by blast+
  ultimately show ?thesis using len c by simp
qed

text \<open>
  Claim C6. For every grid and valid configuration, if \<open>detect_structure\<close> returns a
  decision of type \<open>structured\<close>, then \<open>table_bounds\<close>, \<open>header_row\<close> and \<open>data_start_row\<close>
  are all present and \<open>header_row < data_start_row \<le> table_bounds.max_row\<close>.
\<close>

theorem structured_decision_rows:
  assumes "valid_config cfg" and "d_type (detect_structure cfg data) = Structured"
  shows "\<exists>b h s. d_table_bounds (detect_structure cfg data) = Some b \<and>
           d_header_row (detect_structure cfg data) = Some h \<and>
           d_data_start_row (detect_structure cfg data) = Some s \<and> h < s \<and> s \<le> max_row b"
proof -
  let ?a = "analyze_data_patterns cfg data"
  from assms(2) have ne: "data \<noteq> []" and t: "has_table_structure ?a"
    by (auto simp: detect_structure_def Let_def split: if_splits)
  from analyze_data_patterns_inv [of cfg data] t obtain b h where
    "table_bounds ?a = Some b" "header_row ?a = Some h" "data_start_row ?a = Some (h + 1)"
    "h + 1 \<le> max_row b"
    by (auto simp: table_inv_def)
  with ne t show ?thesis by (simp add: detect_structure_def Let_def)
qed

theorem structured_decision_rows_witness:
  "valid_config default_config \<and>
   d_type (detect_structure default_config table_grid) = Structured \<and>
   (\<exists>b h s. d_table_bounds (detect_structure default_config table_grid) = Some b \<and>
      d_header_row (detect_structure default_config table_grid) = Some h \<and>
      d_data_start_row (detect_structure default_config table_grid) = Some s \<and> h < s \<and> s \<le> max_row b)"
proof -
  have v: "valid_config default_config"
    by (simp add: valid_config_def default_config_def)
  have t: "d_type (detect_structure default_config table_grid) = Structured"
    by (simp add: table_grid_decision)
  from structured_decision_rows [OF v t] v t show ?thesis by blast
qed


section \<open>Verification: column names\<close>

lemma unique_name_fresh: "unique_name seen original col_name counter |\<notin>| seen"
  by (induction seen original col_name counter rule: unique_name.induct)
     (subst unique_name.simps, simp)

lemma unique_name_keep: "col_name |\<notin>| seen \<Longrightarrow> unique_name seen original col_name counter = col_name"
  by (subst unique_name.simps) simp

lemma unique_name_suffix:
  "col_name |\<in>| seen \<Longrightarrow>
   \<exists>k \<ge> counter. unique_name seen original col_name counter = suffixed original k \<and>
      (\<forall>j. counter \<le> j \<and> j < k \<longrightarrow> suffixed original j |\<in>| seen)"
proof (induction seen original col_name counter rule: unique_name.induct)
  case (1 seen original col_name counter)
  show ?case
  proof (cases "suffixed original counter |\<in>| seen")
    case False
    then have "unique_name seen original col_name counter = suffixed original counter"
      using "1.prems" by (subst unique_name.simps) (simp add: unique_name_keep)
    then show ?thesis by auto
  next
    case True
    from "1.IH" [OF "1.prems" True] obtain k where k: "counter + 1 \<le> k"
      "unique_name seen original (suffixed original counter) (counter + 1) = suffixed original k"
      "\<forall>j. counter + 1 \<le> j \<and> j < k \<longrightarrow> suffixed original j |\<in>| seen" by blast
    have "unique_name seen original col_name counter = suffixed original k"
      using "1.prems" k(2) by (subst unique_name.simps) simp
    moreover have "\<forall>j. counter \<le> j \<and> j < k \<longrightarrow> suffixed original j |\<in>| seen"
    proof (intro allI impI)
      fix j assume "counter \<le> j \<and> j < k"
      then consider "j = counter" | "counter + 1 \<le> j \<and> j < k" by linarith
      then show "suffixed original j |\<in>| seen" using True k(3) by cases auto
    qed
    ultimately show ?thesis using k(1) by (intro exI [of _ k]) simp
  qed
qed

lemma suffixed_nonempty: "suffixed original k \<noteq> []"
  by (simp add: suffixed_def)

lemma unique_name_nonempty:
  assumes "col_name \<noteq> []"
  shows "unique_name seen original col_name counter \<noteq> []"
proof (cases "col_name |\<in>| seen")
  case True
  from unique_name_suffix [OF this] obtain k where
    "unique_name seen original col_name counter = suffixed original k" by blast
  then show ?thesis by (simp add: suffixed_nonempty)
next
  case False
  with assms show ?thesis by (simp add: unique_name_keep)
qed

lemma base_name_nonempty: "base_name i col \<noteq> []"
  by (simp add: base_name_def column_default_def Let_def)

lemma clean_column_names_Nil: "clean_column_names [] = []"
  by (simp add: clean_column_names_def clean_state_def)

lemma clean_state_snoc:
  "clean_state (columns @ [c]) = clean_step (clean_state columns) (length columns, c)"
  by (simp add: clean_state_def enumerate_append_eq)

lemma clean_column_names_snoc:
  "clean_column_names (columns @ [c]) =
     clean_column_names columns @
       [unique_name (fst (clean_state columns)) (base_name (length columns) c) (base_name (length columns) c) 1]"
  by (simp add: clean_column_names_def clean_state_snoc clean_step_def Let_def)

lemma seen_is_cleaned: "fst (clean_state columns) = fset_of_list (clean_column_names columns)"
proof (induction columns rule: rev_induct)
  case Nil
  then show ?case by (simp add: clean_state_def clean_column_names_def)
next
  case (snoc c columns)
  then show ?case
    by (simp add: clean_column_names_snoc) (simp add: clean_state_snoc clean_step_def Let_def clean_column_names_def)
qed

lemma clean_column_names_step:
  "clean_column_names (columns @ [c]) =
     clean_column_names columns @
       [unique_name (fset_of_list (clean_column_names columns))
          (base_name (length columns) c) (base_name (length columns) c) 1]"
  by (simp add: clean_column_names_snoc seen_is_cleaned)

lemma length_clean_column_names: "length (clean_column_names columns) = length columns"
  by (induction columns rule: rev_induct) (simp_all add: clean_column_names_step clean_column_names_Nil)

lemma distinct_clean_column_names: "distinct (clean_column_names columns)"
proof (induction columns rule: rev_induct)
  case Nil
  then show ?case by (simp add: clean_column_names_Nil)
next
  case (snoc c columns)
  let ?b = "base_name (length columns) c"
  have "unique_name (fset_of_list (clean_column_names columns)) ?b ?b 1 |\<notin>| fset_of_list (clean_column_names columns)"
    by (rule unique_name_fresh)
  then have "unique_name (fset_of_list (clean_column_names columns)) ?b ?b 1 \<notin> set (clean_column_names columns)"
    by (simp add: fset_of_list.rep_eq)
  with snoc show ?case by (simp add: clean_column_names_step)
qed

lemma nonempty_clean_column_names: "n \<in> set (clean_column_names columns) \<Longrightarrow> n \<noteq> []"
proof (induction columns rule: rev_induct)
  case Nil
  then show ?case by (simp add: clean_column_names_def clean_state_def)
next
  case (snoc c columns)
  have "unique_name (fset_of_list (clean_column_names columns))
          (base_name (length columns) c) (base_name (length columns) c) 1 \<noteq> []"
    by (intro unique_name_nonempty base_name_nonempty)
  with snoc show ?case
    by (auto simp: clean_column_names_step)
qed

lemma take_clean_column_names:
  "i \<le> length columns \<Longrightarrow> take i (clean_column_names columns) = clean_column_names (take i columns)"
proof (induction columns rule: rev_induct)
  case Nil
  then show ?case by (simp add: clean_column_names_Nil)
next
  case (snoc c columns)
  show ?case
  proof (cases "i \<le> length columns")
    case True
    with snoc.IH show ?thesis
      by (simp add: clean_column_names_step length_clean_column_names)
  next
    case False
    with snoc.prems have "i = length (columns @ [c])" by simp
    then show ?thesis
      using length_clean_column_names [of "columns @ [c]"] by simp
  qed
qed

lemma nth_clean_column_names:
  assumes "i < length columns"
  shows "clean_column_names columns ! i =
     unique_name (fset_of_list (take i (clean_column_names columns)))
       (base_name i (columns ! i)) (base_name i (columns ! i)) 1"
proof -
  have "take (Suc i) columns = take i columns @ [columns ! i]"
    using assms by (simp add: take_Suc_conv_app_nth)
  then have "clean_column_names (take (Suc i) columns) =
      clean_column_names (take i columns) @
        [unique_name (fset_of_list (clean_column_names (take i columns)))
           (base_name i (columns ! i)) (base_name i (columns ! i)) 1]"
    using assms by (simp add: clean_column_names_step)
  moreover have "clean_column_names columns ! i = clean_column_names (take (Suc i) columns) ! i"
    using assms take_clean_column_names [of "Suc i" columns, symmetric]
    by simp
  ultimately show ?thesis
    using assms by (simp add: nth_append length_clean_column_names take_clean_column_names)
qed

lemma name_cases:
  assumes "i < length columns"
  defines "b \<equiv> base_name i (columns ! i)"
  defines "earlier \<equiv> set (take i (clean_column_names columns))"
  shows "(b \<notin> earlier \<longrightarrow> clean_column_names columns ! i = b) \<and>
         (b \<in> earlier \<longrightarrow> (\<exists>k \<ge> 1. clean_column_names columns ! i = suffixed b k \<and>
              (\<forall>j. 1 \<le> j \<and> j < k \<longrightarrow> suffixed b j \<in> earlier)))"
  using nth_clean_column_names [OF assms(1)]
        unique_name_keep [of b "fset_of_list (take i (clean_column_names columns))" b 1]
        unique_name_suffix [of b "fset_of_list (take i (clean_column_names columns))" 1 b]
  by (simp add: b_def earlier_def fset_of_list.rep_eq)

lemma earlier_base_seen:
  assumes "j < i" and "i \<le> length columns"
  shows "base_name j (columns ! j) \<in> set (take i (clean_column_names columns))"
proof -
  let ?out = "clean_column_names columns"
  let ?b = "base_name j (columns ! j)"
  from assms have j: "j < length columns" by simp
  have sub: "set (take (Suc j) ?out) \<subseteq> set (take i ?out)"
    using assms by (intro set_take_subset_set_take) simp
  have "?b \<in> set (take (Suc j) ?out)"
  proof (cases "?b \<in> set (take j ?out)")
    case True
    then show ?thesis using set_take_subset_set_take [of j "Suc j" ?out] by auto
  next
    case False
    with name_cases [OF j] have "?out ! j = ?b" by simp
    then show ?thesis
      using j by (simp add: take_Suc_conv_app_nth length_clean_column_names)
  qed
  with sub show ?thesis by blast
qed

lemma base_name_Name: "base_name i (CStr ''Name'') = ''Name''"
  by code_simp

section \<open>The claims about column names\<close>

text \<open>
  Claim C7, as stated: the first occurrence of a name is kept unchanged. It fails on the
  headers \<open>["A", "A", "A_1"]\<close>: the third header is the first occurrence of the name
  \<open>A_1\<close> (the names before it are \<open>A\<close> and \<open>A\<close>), but the second header has already
  been renamed to \<open>A_1\<close>, so the third one comes out as \<open>A_1_1\<close>.
\<close>

theorem clean_column_names_first_occurrence_renamed:
  "base_name 0 (CStr ''A'') = ''A'' \<and> base_name 1 (CStr ''A'') = ''A'' \<and>
   base_name 2 (CStr ''A_1'') = ''A_1'' \<and>
   clean_column_names [CStr ''A'', CStr ''A'', CStr ''A_1''] = [''A'', ''A_1'', ''A_1_1''] \<and>
   clean_column_names [CStr ''A'', CStr ''A'', CStr ''A_1''] ! 2 \<noteq> ''A_1''"
  by code_simp

text \<open>
  Claim C7, amended: for every header list, \<open>clean_column_names\<close> returns a list of the
  same length whose names are pairwise distinct and never empty; a (cleaned) name that is
  not among the names already returned for earlier columns is kept unchanged, and a name
  that is among them, as every later duplicate of an earlier name is, gets the suffix
  \<open>_k\<close> for the least \<open>k \<ge> 1\<close> that makes it new; in particular \<open>["A", "A", "A"]\<close> yields
  exactly \<open>["A", "A_1", "A_2"]\<close>.
\<close>

theorem clean_column_names_distinct:
  "length (clean_column_names columns) = length columns \<and>
   distinct (clean_column_names columns) \<and>
   (\<forall>n \<in> set (clean_column_names columns). n \<noteq> []) \<and>
   (\<forall>i < length columns.
      (base_name i (columns ! i) \<notin> set (take i (clean_column_names columns)) \<longrightarrow>
         clean_column_names columns ! i = base_name i (columns ! i)) \<and>
      (base_name i (columns ! i) \<in> set (take i (clean_column_names columns)) \<longrightarrow>
         (\<exists>k \<ge> 1. clean_column_names columns ! i = suffixed (base_name i (columns ! i)) k \<and>
            (\<forall>j. 1 \<le> j \<and> j < k \<longrightarrow>
               suffixed (base_name i (columns ! i)) j \<in> set (take i (clean_column_names columns))))) \<and>
      (\<forall>j < i. base_name j (columns ! j) = base_name i (columns ! i) \<longrightarrow>
         base_name i (columns ! i) \<in> set (take i (clean_column_names columns)))) \<and>
   clean_column_names [CStr ''A'', CStr ''A'', CStr ''A''] = [''A'', ''A_1'', ''A_2'']"
proof (intro conjI allI impI ballI)
  show "length (clean_column_names columns) = length columns"
    by (rule length_clean_column_names)
  show "distinct (clean_column_names columns)"
    by (rule distinct_clean_column_names)
  show "n \<noteq> []" if "n \<in> set (clean_column_names columns)" for n
    using that by (rule nonempty_clean_column_names)
  show "clean_column_names columns ! i = base_name i (columns ! i)"
    if "i < length columns" "base_name i (columns ! i) \<notin> set (take i (clean_column_names columns))" for i
    using name_cases [OF that(1)] that(2) by simp
  show "\<exists>k \<ge> 1. clean_column_names columns ! i = suffixed (base_name i (columns ! i)) k \<and>
            (\<forall>j. 1 \<le> j \<and> j < k \<longrightarrow>
               suffixed (base_name i (columns ! i)) j \<in> set (take i (clean_column_names columns)))"
    if "i < length columns" "base_name i (columns ! i) \<in> set (take i (clean_column_names columns))" for i
    using name_cases [OF that(1)] that(2) by simp
  show "base_name i (columns ! i) \<in> set (take i (clean_column_names columns))"
    if "i < length columns" "j < i" "base_name j (columns ! j) = base_name i (columns ! i)" for i j
    using earlier_base_seen [of j i columns] that by simp
  show "clean_column_names [CStr ''A'', CStr ''A'', CStr ''A''] = [''A'', ''A_1'', ''A_2'']"
    by code_simp
qed

theorem clean_column_names_distinct_witness:
  "length (clean_column_names [CStr ''Name'', CStr ''Name'']) = 2 \<and>
   distinct (clean_column_names [CStr ''Name'', CStr ''Name'']) \<and>
   clean_column_names [CStr ''Name'', CStr ''Name''] ! 0 = ''Name'' \<and>
   clean_column_names [CStr ''Name'', CStr ''Name''] ! 1 \<noteq> ''Name'' \<and>
   (\<exists>k \<ge> 1. clean_column_names [CStr ''Name'', CStr ''Name''] ! 1 = suffixed ''Name'' k)"
proof -
  let ?cols = "[CStr ''Name'', CStr ''Name'']"
  let ?out = "clean_column_names ?cols"
  note t = clean_column_names_distinct [of ?cols]
  from t have len: "length ?out = 2" and dist: "distinct ?out" by simp_all
  note pos = t [THEN conjunct2, THEN conjunct2, THEN conjunct2, THEN conjunct1, rule_format]
  have "base_name 0 (?cols ! 0) \<notin> set (take 0 ?out)" by simp
  with pos [of 0, THEN conjunct1] have first: "?out ! 0 = ''Name''"
    by (simp add: base_name_Name)
  from len first have mem: "base_name 1 (?cols ! 1) \<in> set (take 1 ?out)"
    by (simp add: base_name_Name take_Suc_conv_app_nth)
  from pos [of 1, THEN conjunct2, THEN conjunct1] mem
  have second: "\<exists>k \<ge> 1. ?out ! 1 = suffixed ''Name'' k"
    by (auto simp: base_name_Name)
  from dist len have "?out ! 1 \<noteq> ?out ! 0"
    by (simp add: distinct_conv_nth)
  with first have "?out ! 1 \<noteq> ''Name''" by simp
  with len dist first second show ?thesis by simp
qed


section \<open>Verification: the unstructured parser\<close>

definition overview_grid :: grid where
  "overview_grid =
     [[CStr ''COMPANY OVERVIEW''],
      [CStr ''Name:'', CStr ''Acme Corp''],
      [CStr ''Founded:'', CStr ''1999'']]"

lemma overview_grid_document:
  "parse_data_block overview_grid =
     Inr [(''COMPANY OVERVIEW'',
           Dct [(''Name'', Str None),
                (''Acme Corp'',
                 Dct [(''Founded'', Str (Some ''1999'')), (''_content'', Lst [''1999''])])])]"
  by code_simp

lemma acme_corp_is_header: "is_subsection_header ''Acme Corp'' 1 \<and> is_header ''Acme Corp''"
  by code_simp

text \<open>
  Claim C3, as stated: the grid of the key-value scenario is parsed into
  \<open>{"COMPANY OVERVIEW": {"Name": "Acme Corp", "Founded": "1999"}}\<close>. The parser returns a
  different document.
\<close>

theorem overview_grid_not_flat:
  "parse_data_block overview_grid \<noteq>
     Inr [(''COMPANY OVERVIEW'',
           Dct [(''Name'', Str (Some ''Acme Corp'')), (''Founded'', Str (Some ''1999''))])]"
  by (simp add: overview_grid_document)

text \<open>
  Claim C3, amended: for the grid of the key-value scenario the parser produces a document
  whose only section is \<open>COMPANY OVERVIEW\<close>; under it the key \<open>Name\<close> has the value \<open>None\<close>,
  because the next cell \<open>Acme Corp\<close> is title-case text of several words, which is a header
  and therefore no continuation of \<open>Name:\<close>; \<open>Acme Corp\<close> opens a subsection, and the value
  \<open>1999\<close> is attached to the key \<open>Founded\<close> inside that subsection.
\<close>

theorem overview_grid_nested:
  "is_header ''Acme Corp'' \<and>
   (\<exists>sec sub.
      parse_data_block overview_grid = Inr [(''COMPANY OVERVIEW'', Dct sec)] \<and>
      map_of sec ''Name'' = Some (Str None) \<and>
      map_of sec ''Acme Corp'' = Some (Dct sub) \<and>
      map_of sub ''Founded'' = Some (Str (Some ''1999'')))"
  by (simp add: overview_grid_document acme_corp_is_header)


section \<open>Verification: the data cleaner\<close>

subsection \<open>A reference environment\<close>

text \<open>
  An environment in which pandas and dateutil recognise no date, \<open>to_numeric\<close> reads
  integers and Python float literals, sampling takes the first values, and the enhanced
  metadata are empty. It is applied only to the concrete columns below, whose values are
  \<open>"Acme"\<close>, \<open>"Beta"\<close>, \<open>"100"\<close>, \<open>"200"\<close>, \<open>"100000"\<close>, \<open>"1000000"\<close>, \<open>"true"\<close>, \<open>"false"\<close>,
  \<open>1.0\<close> and \<open>0.0\<close>. What the types inferred for the string columns require of pandas and
  dateutil is stated by the lemmas \<open>revenue_is_date\<close> (nothing), \<open>name_is_text\<close> and
  \<open>counts_is_integer\<close> (the answers given as hypotheses); the libraries are not asked
  about \<open>"true"\<close> and \<open>"false"\<close>, and \<open>float_repr\<close> is never consulted.
\<close>

definition reference_ext :: "(dval frame \<Rightarrow> (string \<times> col_type) list \<Rightarrow> cerr + unit) ext" where
  "reference_ext =
     \<lparr>pd_to_datetime = (\<lambda>s. False), dateutil_parse = (\<lambda>s. False),
      to_numeric = (\<lambda>v. case v of
                           CNone \<Rightarrow> None
                         | CInt i \<Rightarrow> Some (of_int i)
                         | CStr s \<Rightarrow> (case py_float s of Some (Finite r) \<Rightarrow> Some r | _ \<Rightarrow> None)),
      float_repr = (\<lambda>r. ''1e+16''),
      sample = (\<lambda>xs n. take n xs), cleaner_date = (\<lambda>s. None),
      enhanced_metadata = (\<lambda>df types. Inr ())\<rparr>"

subsection \<open>Association lists\<close>

lemma map_of_map_values:
  "map_of (map (\<lambda>(k, v). (k, f k v)) xs) k = map_option (f k) (map_of xs k)"
  by (induction xs) auto

subsection \<open>The boolean test\<close>

lemma is_boolean_column_subset:
  assumes "set smp \<subseteq> set col_data"
    and "set (map (\<lambda>v. lower (fstr ext v)) col_data) \<subseteq> set boolean_values"
    and "card (set (map (\<lambda>v. lower (fstr ext v)) col_data)) \<le> 2"
  shows "is_boolean_column ext smp"
proof -
  let ?f = "\<lambda>v. lower (fstr ext v)"
  have sub: "set (map ?f smp) \<subseteq> set (map ?f col_data)"
    using assms(1) by auto
  have "length (remdups (map ?f smp)) = card (set (map ?f smp))"
    by (simp add: length_remdups_card_conv)
  also have "\<dots> \<le> card (set (map ?f col_data))"
    using sub by (intro card_mono) simp_all
  finally have "length (remdups (map ?f smp)) \<le> 2"
    using assms(3) by simp
  moreover have "\<forall>s \<in> set (remdups (map ?f smp)). s \<in> set boolean_values"
    using sub assms(2) by auto
  ultimately show ?thesis
    by (simp add: is_boolean_column_def Let_def list_all_iff)
qed

subsection \<open>The integer conversion\<close>

lemma to_int64_no_missing: "to_int64 ext vals = Inr xs \<Longrightarrow> filter (\<lambda>v. v = VNone) xs = []"
  by (auto simp: to_int64_def Let_def filter_empty_conv split: if_splits)

lemma round2_zero: "round2 0 = 0"
  by (simp add: round2_def round_half_even_def)

lemma clean_structured_data_fields:
  assumes "clean_structured_data cfg ext table = Inr res"
    and "td_columns table \<noteq> []" and "td_data table \<noteq> []"
    and "make_frame (td_data table) (clean_column_names (td_columns table)) = Inr df0"
  shows "r_data_types res = (if infer_data_types cfg then infer_column_types ext (clean_dataframe cfg df0) else []) \<and>
         r_missing_values res =
           calculate_missing_values (apply_data_types cfg ext (clean_dataframe cfg df0) (r_data_types res))"
  using assms
  by (auto simp: clean_structured_data_def Let_def split: sum.splits if_splits)

subsection \<open>The table of the extraction scenario\<close>

definition scenario_table :: table_data where
  "scenario_table =
     \<lparr>td_columns = [CStr ''Name'', CStr ''Revenue''],
      td_data = [[CStr ''Acme'', CStr ''100''], [CStr ''Beta'', CStr ''200'']]\<rparr>"

text \<open>
  The types that \<open>clean_structured_data\<close> infers for a table (with \<open>infer_data_types\<close> on),
  when the frame can be built.
\<close>

definition inferred_types :: "clean_config \<Rightarrow> ('e, 'x) ext_scheme \<Rightarrow> table_data \<Rightarrow> (string \<times> col_type) list option" where
  "inferred_types cfg ext table =
     (case make_frame (td_data table) (clean_column_names (td_columns table)) of
        Inl e \<Rightarrow> None
      | Inr df0 \<Rightarrow> Some (infer_column_types ext (clean_dataframe cfg df0)))"

lemma scenario_extract:
  "extract_table table_grid (detect_structure default_config table_grid) = scenario_table"
proof -
  have "extract_table table_grid
          \<lparr>d_type = Structured, d_confidence = 1,
           d_table_bounds =
             Some \<lparr>min_row = 0, max_row = 2, min_col = 0, max_col = 1, area = 6,
                    cells = [(0, 0), (1, 0), (2, 0), (2, 1), (1, 1), (0, 1)]\<rparr>,
           d_header_row = Some 0, d_data_start_row = Some 1,
           d_key_value_regions = None, d_regions = None, d_details = None\<rparr> = scenario_table"
    by code_simp
  then show ?thesis
    by (simp add: table_grid_decision extract_table_def)
qed

lemma scenario_frame:
  "make_frame (td_data scenario_table) (clean_column_names (td_columns scenario_table)) =
     Inr [(''Name'', [FStr ''Acme'', FStr ''Beta'']), (''Revenue'', [FStr ''100'', FStr ''200''])]"
  by code_simp

lemma scenario_cleaned:
  "clean_dataframe default_cleaning
     [(''Name'', [FStr ''Acme'', FStr ''Beta'']), (''Revenue'', [FStr ''100'', FStr ''200''])] =
     [(''Name'', [FStr ''Acme'', FStr ''Beta'']), (''Revenue'', [FStr ''100'', FStr ''200''])]"
  by code_simp

lemma is_boolean_column_strings:
  "is_boolean_column ext (map FStr xs) =
     (length (remdups (map lower xs)) \<le> 2 \<and> list_all (\<lambda>s. s \<in> set boolean_values) (remdups (map lower xs)))"
  by (simp add: is_boolean_column_def fstr_def comp_def Let_def)

lemma revenue_not_boolean: "\<not> is_boolean_column ext [FStr ''100'', FStr ''200'']"
proof -
  have "\<not> (length (remdups (map lower [''100'', ''200''])) \<le> 2 \<and>
            list_all (\<lambda>s. s \<in> set boolean_values) (remdups (map lower [''100'', ''200''])))"
    by code_simp
  then show ?thesis
    using is_boolean_column_strings [of ext "[''100'', ''200'']"] by simp
qed

lemma revenue_no_date_name: "\<not> list_ex (\<lambda>p. found p (lower ''Revenue'')) date_column_patterns"
  by code_simp

lemma revenue_values:
  "strip ''100'' = ''100''" "strip ''200'' = ''200''"
  "excel_serial ''100''" "excel_serial ''200''"
  by code_simp+

text \<open>
  Whatever pandas and dateutil answer, \<open>parse_date\<close> returns a date for \<open>"100"\<close> and for
  \<open>"200"\<close>: at the latest, the Excel serial number rule accepts them.
\<close>

lemma revenue_values_parse:
  "detector_parse_date ext (FStr ''100'')" "detector_parse_date ext (FStr ''200'')"
  by (simp_all add: detector_parse_date_def fstr_def Let_def revenue_values)

lemma revenue_is_date: "infer_column_type ext ''Revenue'' [FStr ''100'', FStr ''200''] = ColDate"
proof -
  have d: "is_date_column ext ''Revenue'' [FStr ''100'', FStr ''200'']"
    using revenue_no_date_name
    by (simp add: is_date_column_def revenue_values_parse ratio_def)
  have "dropna [FStr ''100'', FStr ''200''] = [FStr ''100'', FStr ''200'']"
    by (simp add: dropna_def)
  with d revenue_not_boolean show ?thesis
    by (simp add: infer_column_type_def Let_def)
qed

lemma name_not_boolean: "\<not> is_boolean_column ext [FStr ''Acme'', FStr ''Beta'']"
proof -
  have "\<not> (length (remdups (map lower [''Acme'', ''Beta''])) \<le> 2 \<and>
            list_all (\<lambda>s. s \<in> set boolean_values) (remdups (map lower [''Acme'', ''Beta''])))"
    by code_simp
  then show ?thesis
    using is_boolean_column_strings [of ext "[''Acme'', ''Beta'']"] by simp
qed

lemma name_no_date_name: "\<not> list_ex (\<lambda>p. found p (lower ''Name'')) date_column_patterns"
  by code_simp

lemma name_values:
  "strip ''Acme'' = ''Acme''" "strip ''Beta'' = ''Beta''"
  "\<not> custom_date ''Acme''" "\<not> custom_date ''Beta''"
  "\<not> excel_serial ''Acme''" "\<not> excel_serial ''Beta''"
  "\<not> is_categorical_column [FStr ''Acme'', FStr ''Beta'']"
  by code_simp+

lemma name_is_text:
  assumes "\<not> pd_to_datetime ext ''Acme''" and "\<not> pd_to_datetime ext ''Beta''"
    and "\<not> dateutil_parse ext ''Acme''" and "\<not> dateutil_parse ext ''Beta''"
    and "to_numeric ext (CStr ''Acme'') = None" and "to_numeric ext (CStr ''Beta'') = None"
  shows "infer_column_type ext ''Name'' [FStr ''Acme'', FStr ''Beta''] = ColText"
proof -
  have p: "\<not> detector_parse_date ext (FStr ''Acme'')" "\<not> detector_parse_date ext (FStr ''Beta'')"
    using assms by (simp_all add: detector_parse_date_def fstr_def Let_def name_values)
  have d: "\<not> is_date_column ext ''Name'' [FStr ''Acme'', FStr ''Beta'']"
    using name_no_date_name p by (simp add: is_date_column_def ratio_def)
  have n: "\<not> is_numeric_column ext [FStr ''Acme'', FStr ''Beta'']"
    using assms(5,6) by (simp add: is_numeric_column_def numeric_value_def ratio_def)
  have "dropna [FStr ''Acme'', FStr ''Beta''] = [FStr ''Acme'', FStr ''Beta'']"
    by (simp add: dropna_def)
  with d n name_not_boolean name_values(7) show ?thesis
    by (simp add: infer_column_type_def Let_def)
qed

lemma reference_ext_rejects:
  "\<not> pd_to_datetime reference_ext s" "\<not> dateutil_parse reference_ext s"
  "to_numeric reference_ext (CStr ''Acme'') = None" "to_numeric reference_ext (CStr ''Beta'') = None"
proof -
  have "py_float ''Acme'' = None" "py_float ''Beta'' = None" by code_simp+
  then show "to_numeric reference_ext (CStr ''Acme'') = None" "to_numeric reference_ext (CStr ''Beta'') = None"
    by (simp_all add: reference_ext_def)
qed (simp_all add: reference_ext_def)

subsection \<open>A column of large integers written as strings\<close>

definition counts_table :: table_data where
  "counts_table =
     \<lparr>td_columns = [CStr ''n''], td_data = [[CStr ''100000''], [CNone], [CStr ''1000000'']]\<rparr>"

lemma counts_frame:
  "make_frame (td_data counts_table) (clean_column_names (td_columns counts_table)) =
     Inr [(''n'', [FStr ''100000'', FNone, FStr ''1000000''])]"
  by code_simp

lemma counts_cleaned:
  "clean_dataframe default_cleaning [(''n'', [FStr ''100000'', FNone, FStr ''1000000''])] =
     [(''n'', [FStr ''100000'', FNone, FStr ''1000000''])]"
  by code_simp

lemma counts_float:
  "py_float ''100000'' = Some (Finite 100000)" "py_float ''1000000'' = Some (Finite 1000000)"
  by (simp_all add: py_float_def strip_def strip_with_def is_space_def number_part_def digitpart_def
        is_digit_def digits_value_def exponent_part_def pow10_def lower_def to_lower_def is_upper_def Let_def)

lemma counts_not_boolean: "\<not> is_boolean_column ext [FStr ''100000'', FStr ''1000000'']"
proof -
  have "\<not> (length (remdups (map lower [''100000'', ''1000000''])) \<le> 2 \<and>
            list_all (\<lambda>s. s \<in> set boolean_values) (remdups (map lower [''100000'', ''1000000''])))"
    by code_simp
  then show ?thesis
    using is_boolean_column_strings [of ext "[''100000'', ''1000000'']"] by simp
qed

lemma counts_no_date_name: "\<not> list_ex (\<lambda>p. found p (lower ''n'')) date_column_patterns"
  by code_simp

lemma counts_values:
  "strip ''100000'' = ''100000''" "strip ''1000000'' = ''1000000''"
  "\<not> custom_date ''100000''" "\<not> custom_date ''1000000''"
  by code_simp+

text \<open>
  The Excel serial number rule stops below 100000, so the column is typed \<open>integer\<close>
  whenever pandas and dateutil see no date in the two numbers and \<open>to_numeric\<close> reads
  them.
\<close>

lemma counts_not_serial: "\<not> excel_serial ''100000''" "\<not> excel_serial ''1000000''"
  by (simp_all add: excel_serial_def counts_float)

lemma counts_is_integer:
  assumes "\<not> pd_to_datetime ext ''100000''" and "\<not> pd_to_datetime ext ''1000000''"
    and "\<not> dateutil_parse ext ''100000''" and "\<not> dateutil_parse ext ''1000000''"
    and "to_numeric ext (CStr ''100000'') = Some 100000"
    and "to_numeric ext (CStr ''1000000'') = Some 1000000"
  shows "infer_column_type ext ''n'' [FStr ''100000'', FNone, FStr ''1000000''] = ColInteger"
    and "to_int64 ext [FStr ''100000'', FNone, FStr ''1000000''] = Inr [VInt 100000, VInt 0, VInt 1000000]"
proof -
  have p: "\<not> detector_parse_date ext (FStr ''100000'')" "\<not> detector_parse_date ext (FStr ''1000000'')"
    using assms(1-4)
    by (simp_all add: detector_parse_date_def fstr_def Let_def counts_values counts_not_serial)
  have d: "\<not> is_date_column ext ''n'' [FStr ''100000'', FStr ''1000000'']"
    using counts_no_date_name p by (simp add: is_date_column_def ratio_def)
  have n: "is_numeric_column ext [FStr ''100000'', FStr ''1000000'']"
    using assms(5,6) by (simp add: is_numeric_column_def numeric_value_def ratio_def)
  have i: "is_integer_column ext [FStr ''100000'', FStr ''1000000'']"
    using assms(5,6) by (simp add: is_integer_column_def numeric_value_def is_integral_def)
  have "dropna [FStr ''100000'', FNone, FStr ''1000000''] = [FStr ''100000'', FStr ''1000000'']"
    by (simp add: dropna_def)
  with d n i counts_not_boolean
  show "infer_column_type ext ''n'' [FStr ''100000'', FNone, FStr ''1000000''] = ColInteger"
    by (simp add: infer_column_type_def Let_def)
  show "to_int64 ext [FStr ''100000'', FNone, FStr ''1000000''] = Inr [VInt 100000, VInt 0, VInt 1000000]"
    using assms(5,6) by (simp add: to_int64_def numeric_value_def is_integral_def)
qed

lemma reference_ext_counts:
  "to_numeric reference_ext (CStr ''100000'') = Some 100000"
  "to_numeric reference_ext (CStr ''1000000'') = Some 1000000"
  by (simp_all add: reference_ext_def counts_float)


subsection \<open>Evaluations in the reference environment\<close>

definition data_types_of :: "cerr + 'm cleaned \<Rightarrow> (string \<times> col_type) list option" where
  "data_types_of r = (case r of Inl e \<Rightarrow> None | Inr res \<Rightarrow> Some (r_data_types res))"

lemma scenario_result:
  "process_structured_data default_cleaning reference_ext table_grid
     (detect_structure default_config table_grid) =
   Inr \<lparr>r_columns = [''Name'', ''Revenue''],
        r_data = [[VStr ''Acme'', VStr ''100''], [VStr ''Beta'', VStr ''200'']],
        r_data_types = [(''Name'', ColText), (''Revenue'', ColDate)],
        r_row_count = 2,
        r_missing_values = [(''Name'', 0, 0), (''Revenue'', 0, 0)],
        r_descriptions =
          [(''Name'', \<lparr>desc_type = ColText, non_null_count = 2, null_count = 0, unique_count = 2\<rparr>),
           (''Revenue'', \<lparr>desc_type = ColDate, non_null_count = 2, null_count = 0, unique_count = 2\<rparr>)],
        r_enhanced = Some ()\<rparr>"
proof -
  have "clean_structured_data default_cleaning reference_ext scenario_table =
     Inr \<lparr>r_columns = [''Name'', ''Revenue''],
          r_data = [[VStr ''Acme'', VStr ''100''], [VStr ''Beta'', VStr ''200'']],
          r_data_types = [(''Name'', ColText), (''Revenue'', ColDate)],
          r_row_count = 2,
          r_missing_values = [(''Name'', 0, 0), (''Revenue'', 0, 0)],
          r_descriptions =
            [(''Name'', \<lparr>desc_type = ColText, non_null_count = 2, null_count = 0, unique_count = 2\<rparr>),
             (''Revenue'', \<lparr>desc_type = ColDate, non_null_count = 2, null_count = 0, unique_count = 2\<rparr>)],
          r_enhanced = Some ()\<rparr>"
    by code_simp
  then show ?thesis
    by (simp add: process_structured_data_def scenario_extract)
qed

text \<open>
  The lower-cased renderings of the non-missing values of a column, as
  \<open>astype(str).str.lower()\<close> gives them.
\<close>

definition lowered_values :: "('e, 'x) ext_scheme \<Rightarrow> fcell list \<Rightarrow> string list" where
  "lowered_values ext vals = map (\<lambda>v. lower (fstr ext v)) (dropna vals)"

definition flags_table :: table_data where
  "flags_table =
     \<lparr>td_columns = [CStr ''flag''],
      td_data = [[CStr ''true''], [CStr ''false''], [CStr ''true''], [CStr ''true''], [CNone], [CStr ''false'']]\<rparr>"

definition flags :: "fcell list" where
  "flags = [FStr ''true'', FStr ''false'', FStr ''true'', FStr ''true'', FNone, FStr ''false'']"

lemma flags_frame:
  "make_frame (td_data flags_table) (clean_column_names (td_columns flags_table)) = Inr [(''flag'', flags)]"
  "clean_dataframe default_cleaning [(''flag'', flags)] = [(''flag'', flags)]"
  by code_simp+

lemma flags_values:
  "dropna flags = [FStr ''true'', FStr ''false'', FStr ''true'', FStr ''true'', FStr ''false'']"
  "set (map lower [''true'', ''false'', ''true'', ''true'', ''false'']) = {''true'', ''false''}"
  "''true'' \<in> set boolean_values" "''false'' \<in> set boolean_values"
  "is_categorical_column [FStr ''true'', FStr ''false'', FStr ''true'', FStr ''true'', FStr ''false'']"
  by code_simp+

lemma flags_table_result:
  "clean_structured_data default_cleaning reference_ext flags_table =
     Inr \<lparr>r_columns = [''flag''],
          r_data = [[VBool True], [VBool False], [VBool True], [VBool True], [VNone], [VBool False]],
          r_data_types = [(''flag'', ColBoolean)],
          r_row_count = 6,
          r_missing_values = [(''flag'', 1, 1667 / 100)],
          r_descriptions =
            [(''flag'', \<lparr>desc_type = ColBoolean, non_null_count = 5, null_count = 1, unique_count = 2\<rparr>)],
          r_enhanced = Some ()\<rparr>"
  by code_simp

text \<open>
  The column \<open>"true", "false", "true"\<close> has two distinct values among three and does not
  pass the categorical test.
\<close>

lemma three_flags_not_categorical:
  "\<not> is_categorical_column [FStr ''true'', FStr ''false'', FStr ''true'']"
  by code_simp

text \<open>
  A column of integers with a missing cell: the frame holds the floats \<open>1.0\<close>, \<open>NaN\<close>,
  \<open>0.0\<close>, which read \<open>'1.0'\<close> and \<open>'0.0'\<close>, so the column is typed \<open>integer\<close>, not
  \<open>boolean\<close>. Without the missing cell it holds the integers, which read \<open>'1'\<close> and
  \<open>'0'\<close>.
\<close>

lemma integer_column_stored_as_float:
  "make_frame [[CInt 1], [CNone], [CInt 0]] [''a''] = Inr [(''a'', [FFloat 1, FNone, FFloat 0])]"
  "lowered_values ext [FFloat 1, FNone, FFloat 0] = [''1.0'', ''0.0'']"
  "make_frame [[CInt 1], [CInt 1], [CInt 0]] [''a''] = Inr [(''a'', [FInt 1, FInt 1, FInt 0])]"
  "lowered_values ext [FInt 1, FInt 1, FInt 0] = [''1'', ''1'', ''0'']"
proof -
  show "make_frame [[CInt 1], [CNone], [CInt 0]] [''a''] = Inr [(''a'', [FFloat 1, FNone, FFloat 0])]"
    by code_simp
  show "make_frame [[CInt 1], [CInt 1], [CInt 0]] [''a''] = Inr [(''a'', [FInt 1, FInt 1, FInt 0])]"
    by code_simp
  have "lower (show_int 1 @ ''.0'') = ''1.0''" "lower (show_int 0 @ ''.0'') = ''0.0''"
       "lower (show_int 1) = ''1''" "lower (show_int 0) = ''0''"
    by code_simp+
  then show "lowered_values ext [FFloat 1, FNone, FFloat 0] = [''1.0'', ''0.0'']"
      "lowered_values ext [FInt 1, FInt 1, FInt 0] = [''1'', ''1'', ''0'']"
    by (simp_all add: lowered_values_def dropna_def fstr_def float_str_def is_integral_def)
qed

lemma integer_column_with_missing_result:
  "clean_structured_data default_cleaning reference_ext
       \<lparr>td_columns = [CStr ''a''], td_data = [[CInt 1], [CNone], [CInt 0]]\<rparr> =
     Inr \<lparr>r_columns = [''a''],
          r_data = [[VInt 1], [VInt 0], [VInt 0]],
          r_data_types = [(''a'', ColInteger)],
          r_row_count = 3,
          r_missing_values = [(''a'', 0, 0)],
          r_descriptions =
            [(''a'', \<lparr>desc_type = ColInteger, non_null_count = 3, null_count = 0, unique_count = 2\<rparr>)],
          r_enhanced = Some ()\<rparr>"
  by code_simp

section \<open>The claims about the data cleaner\<close>

text \<open>
  Claim C2, as stated: for the grid of the table scenario the inferred types are
  \<open>{Name: text, Revenue: integer}\<close>. In the reference environment the pipeline infers
  \<open>date\<close> for \<open>Revenue\<close>; by \<open>revenue_is_date\<close> it does so in every environment.
\<close>

theorem scenario_revenue_not_integer:
  "data_types_of (process_structured_data default_cleaning reference_ext table_grid
                    (detect_structure default_config table_grid))
     = Some [(''Name'', ColText), (''Revenue'', ColDate)] \<and>
   data_types_of (process_structured_data default_cleaning reference_ext table_grid
                    (detect_structure default_config table_grid))
     \<noteq> Some [(''Name'', ColText), (''Revenue'', ColInteger)]"
  by (simp add: scenario_result data_types_of_def)

text \<open>
  Claim C2, amended: for the grid \<open>[["Name","Revenue"],["Acme","100"],["Beta","200"]]\<close> the
  sheet is classified as structured with \<open>header_row = 0\<close> and \<open>data_start_row = 1\<close>, the
  extracted columns are \<open>["Name","Revenue"]\<close> and the extracted data
  \<open>[["Acme","100"],["Beta","200"]]\<close>, and the cascade assigns \<open>{Name: text, Revenue: date}\<close>:
  the date test comes before the numeric test and accepts \<open>"100"\<close> and \<open>"200"\<close>, at the
  latest as Excel serial numbers. (For \<open>Name\<close> this supposes that neither pandas nor
  dateutil reads \<open>"Acme"\<close> or \<open>"Beta"\<close> as a date or a number.)
\<close>

theorem scenario_structured_types:
  assumes "\<not> pd_to_datetime ext ''Acme''" and "\<not> pd_to_datetime ext ''Beta''"
    and "\<not> dateutil_parse ext ''Acme''" and "\<not> dateutil_parse ext ''Beta''"
    and "to_numeric ext (CStr ''Acme'') = None" and "to_numeric ext (CStr ''Beta'') = None"
  shows "d_type (detect_structure default_config table_grid) = Structured \<and>
         d_header_row (detect_structure default_config table_grid) = Some 0 \<and>
         d_data_start_row (detect_structure default_config table_grid) = Some 1 \<and>
         td_columns (extract_table table_grid (detect_structure default_config table_grid))
           = [CStr ''Name'', CStr ''Revenue''] \<and>
         td_data (extract_table table_grid (detect_structure default_config table_grid))
           = [[CStr ''Acme'', CStr ''100''], [CStr ''Beta'', CStr ''200'']] \<and>
         inferred_types default_cleaning ext (extract_table table_grid (detect_structure default_config table_grid))
           = Some [(''Name'', ColText), (''Revenue'', ColDate)] \<and>
         (\<forall>res. process_structured_data default_cleaning ext table_grid
                   (detect_structure default_config table_grid) = Inr res \<longrightarrow>
                r_columns res = [''Name'', ''Revenue''] \<and>
                r_data_types res = [(''Name'', ColText), (''Revenue'', ColDate)])"
proof -
  let ?df = "[(''Name'', [FStr ''Acme'', FStr ''Beta'']), (''Revenue'', [FStr ''100'', FStr ''200''])]"
  have types: "infer_column_types ext ?df = [(''Name'', ColText), (''Revenue'', ColDate)]"
    using name_is_text [OF assms] revenue_is_date [of ext]
    by (simp add: infer_column_types_def)
  then have inf: "inferred_types default_cleaning ext scenario_table
      = Some [(''Name'', ColText), (''Revenue'', ColDate)]"
    by (simp add: inferred_types_def scenario_frame scenario_cleaned)
  have res: "r_columns res = [''Name'', ''Revenue''] \<and>
             r_data_types res = [(''Name'', ColText), (''Revenue'', ColDate)]"
    if "clean_structured_data default_cleaning ext scenario_table = Inr res" for res
  proof -
    have ne: "td_columns scenario_table \<noteq> []" "td_data scenario_table \<noteq> []"
      by (simp_all add: scenario_table_def)
    have i: "infer_data_types default_cleaning"
      by (simp add: default_cleaning_def)
    from clean_structured_data_fields [OF that ne scenario_frame]
    have "r_data_types res = [(''Name'', ColText), (''Revenue'', ColDate)]"
      by (simp add: i scenario_cleaned types)
    moreover from that ne have "r_columns res = [''Name'', ''Revenue'']"
      by (auto simp: clean_structured_data_def Let_def scenario_frame scenario_cleaned
            apply_data_types_def split: sum.splits)
    ultimately show ?thesis by simp
  qed
  have dec: "d_type (detect_structure default_config table_grid) = Structured"
      "d_header_row (detect_structure default_config table_grid) = Some 0"
      "d_data_start_row (detect_structure default_config table_grid) = Some 1"
    by (simp_all add: table_grid_decision)
  have tab: "td_columns scenario_table = [CStr ''Name'', CStr ''Revenue'']"
      "td_data scenario_table = [[CStr ''Acme'', CStr ''100''], [CStr ''Beta'', CStr ''200'']]"
    by (simp_all add: scenario_table_def)
  show ?thesis
    unfolding process_structured_data_def scenario_extract
    using dec tab inf res by blast
qed

theorem scenario_structured_types_witness:
  "\<not> pd_to_datetime reference_ext ''Acme'' \<and> \<not> dateutil_parse reference_ext ''Beta'' \<and>
   to_numeric reference_ext (CStr ''Acme'') = None \<and>
   d_type (detect_structure default_config table_grid) = Structured \<and>
   d_header_row (detect_structure default_config table_grid) = Some 0 \<and>
   d_data_start_row (detect_structure default_config table_grid) = Some 1 \<and>
   inferred_types default_cleaning reference_ext
       (extract_table table_grid (detect_structure default_config table_grid))
     = Some [(''Name'', ColText), (''Revenue'', ColDate)]"
  using scenario_structured_types [of reference_ext] reference_ext_rejects
  by simp

text \<open>
  Claim C8, as stated: every column whose distinct lower-cased non-missing values are at
  most two boolean tokens is typed \<open>boolean\<close>. It fails on a column without any
  non-missing value, whose set of values is empty: the type is \<open>unknown\<close>.
\<close>

theorem all_missing_column_unknown:
  "set (lowered_values reference_ext [FNone, FNone]) \<subseteq> set boolean_values \<and>
   card (set (lowered_values reference_ext [FNone, FNone])) \<le> 2 \<and>
   map_of (infer_column_types reference_ext [(''flag'', [FNone, FNone])]) ''flag'' = Some ColUnknown \<and>
   map_of (infer_column_types reference_ext [(''flag'', [FNone, FNone])]) ''flag'' \<noteq> Some ColBoolean"
  by (simp add: lowered_values_def dropna_def infer_column_types_def infer_column_type_def)

text \<open>
  Claim C8, amended: for every column of the cleaned frame with at least one non-missing
  value, if the distinct lower-cased renderings of its non-missing values, as
  \<open>astype(str).str.lower()\<close> gives them for the values the frame stores, form a subset
  of the boolean token set of size at most 2, then the cascade assigns the type \<open>boolean\<close>
  and never \<open>categorical\<close>, whatever sample is drawn: the boolean test is the first of
  the cascade. (A column of the integers 1 and 0 with a missing cell is stored as floats,
  which read \<open>'1.0'\<close> and \<open>'0.0'\<close>: it does not satisfy the condition.)
\<close>

theorem boolean_before_categorical:
  assumes "\<And>xs n. set (sample ext xs n) \<subseteq> set xs"
    and "map_of df col = Some vals"
    and "dropna vals \<noteq> []"
    and "set (lowered_values ext vals) \<subseteq> set boolean_values"
    and "card (set (lowered_values ext vals)) \<le> 2"
  shows "map_of (infer_column_types ext df) col = Some ColBoolean \<and>
         map_of (infer_column_types ext df) col \<noteq> Some ColCategorical"
proof -
  let ?smp = "if length (dropna vals) > min 100 (length (dropna vals))
              then sample ext (dropna vals) (min 100 (length (dropna vals))) else dropna vals"
  have "set ?smp \<subseteq> set (dropna vals)"
    using assms(1) by simp
  then have "is_boolean_column ext ?smp"
    using assms(4,5) unfolding lowered_values_def by (rule is_boolean_column_subset)
  with assms(3) have "infer_column_type ext col vals = ColBoolean"
    by (simp add: infer_column_type_def Let_def)
  with assms(2) show ?thesis
    by (simp add: infer_column_types_def map_of_map_values)
qed

text \<open>
  The column \<open>"true", "false", "true", "true", None, "false"\<close> has two distinct values
  among five, so it passes the categorical test as well; it is typed \<open>boolean\<close>.
\<close>

theorem boolean_before_categorical_witness:
  "make_frame (td_data flags_table) (clean_column_names (td_columns flags_table)) = Inr [(''flag'', flags)] \<and>
   clean_dataframe default_cleaning [(''flag'', flags)] = [(''flag'', flags)] \<and>
   dropna flags \<noteq> [] \<and>
   set (lowered_values reference_ext flags) = {''true'', ''false''} \<and>
   is_categorical_column (dropna flags) \<and>
   map_of (infer_column_types reference_ext [(''flag'', flags)]) ''flag'' = Some ColBoolean \<and>
   map_of (infer_column_types reference_ext [(''flag'', flags)]) ''flag'' \<noteq> Some ColCategorical"
proof -
  have s: "\<And>xs n. set (sample reference_ext xs n) \<subseteq> set xs"
    by (simp add: reference_ext_def set_take_subset)
  have m: "map_of [(''flag'', flags)] ''flag'' = Some flags"
    by simp
  have n: "dropna flags \<noteq> []"
    by (simp add: flags_values)
  have "lowered_values reference_ext flags = map lower [''true'', ''false'', ''true'', ''true'', ''false'']"
    by (simp add: lowered_values_def flags_values(1) fstr_def)
  then have v: "set (lowered_values reference_ext flags) = {''true'', ''false''}"
    by (simp only: flags_values(2))
  have b: "set (lowered_values reference_ext flags) \<subseteq> set boolean_values"
    unfolding v using flags_values(3,4) by simp
  have c: "card (set (lowered_values reference_ext flags)) \<le> 2"
    unfolding v by (simp add: card_insert_if)
  have k: "is_categorical_column (dropna flags)"
    by (simp only: flags_values(1,5))
  from boolean_before_categorical [of reference_ext, OF s m n b c] flags_frame n v k show ?thesis
    by simp
qed

text \<open>
  Claim C9. For every input table whose \<open>columns\<close> list is empty or whose \<open>data\<close> list is
  empty, \<open>clean_structured_data\<close> returns the empty result (no columns, no rows, no types,
  row count 0, no missing-value statistics, no descriptions) and raises nothing.
\<close>

theorem empty_table_empty_result:
  assumes "td_columns table = [] \<or> td_data table = []"
  shows "clean_structured_data cfg ext table =
           Inr \<lparr>r_columns = [], r_data = [], r_data_types = [], r_row_count = 0,
                r_missing_values = [], r_descriptions = [], r_enhanced = None\<rparr>"
  using assms by (auto simp: clean_structured_data_def empty_result_def)

theorem empty_table_empty_result_witness:
  "td_data \<lparr>td_columns = [CStr ''Name''], td_data = []\<rparr> = [] \<and>
   clean_structured_data default_cleaning reference_ext \<lparr>td_columns = [CStr ''Name''], td_data = []\<rparr> =
     Inr \<lparr>r_columns = [], r_data = [], r_data_types = [], r_row_count = 0,
          r_missing_values = [], r_descriptions = [], r_enhanced = None\<rparr>"
  using empty_table_empty_result [of "\<lparr>td_columns = [CStr ''Name''], td_data = []\<rparr>" default_cleaning reference_ext]
  by simp

text \<open>
  Claim C10. In \<open>clean_structured_data\<close> the missing-value statistics are taken from the
  frame after the type conversions; so for every column whose inferred type is \<open>integer\<close>
  and whose conversion does not raise, the reported entry is \<open>{count: 0, percentage: 0}\<close>,
  however many cells of the column were missing.
\<close>

theorem integer_column_missing_zero:
  assumes "clean_structured_data cfg ext table = Inr res"
    and "make_frame (td_data table) (clean_column_names (td_columns table)) = Inr df0"
    and "map_of (clean_dataframe cfg df0) col = Some vals"
    and "map_of (r_data_types res) col = Some ColInteger"
    and "to_int64 ext vals = Inr xs"
  shows "r_missing_values res =
           calculate_missing_values (apply_data_types cfg ext (clean_dataframe cfg df0) (r_data_types res)) \<and>
         map_of (r_missing_values res) col = Some (0, 0)"
proof -
  have ne: "td_columns table \<noteq> []" "td_data table \<noteq> []"
    using assms(1,4) by (auto simp: clean_structured_data_def empty_result_def split: if_splits)
  from clean_structured_data_fields [OF assms(1) ne assms(2)]
  have mv: "r_missing_values res =
      calculate_missing_values (apply_data_types cfg ext (clean_dataframe cfg df0) (r_data_types res))"
    by simp
  let ?df = "apply_data_types cfg ext (clean_dataframe cfg df0) (r_data_types res)"
  have conv: "map_of ?df col = Some xs"
    using assms(3,4,5)
    by (simp add: apply_data_types_def map_of_map_values convert_column_def)
  have "map_of (calculate_missing_values ?df) col
      = Some (length (filter (\<lambda>v. v = VNone) xs),
              if frame_len ?df > 0
              then round2 (of_nat (length (filter (\<lambda>v. v = VNone) xs)) / of_nat (frame_len ?df) * 100)
              else 0)"
    using conv by (simp add: calculate_missing_values_def map_of_map_values Let_def)
  also have "\<dots> = Some (0, 0)"
    using to_int64_no_missing [OF assms(5)] by (simp add: round2_zero)
  finally show ?thesis using mv by simp
qed

text \<open>
  The column \<open>"100000", None, "1000000"\<close>: one cell of three is missing, the type is
  \<open>integer\<close>, and the reported entry is \<open>{count: 0, percentage: 0}\<close>.
\<close>

theorem integer_column_missing_zero_witness:
  "td_data counts_table = [[CStr ''100000''], [CNone], [CStr ''1000000'']] \<and>
   make_frame (td_data counts_table) (clean_column_names (td_columns counts_table)) =
     Inr [(''n'', [FStr ''100000'', FNone, FStr ''1000000''])] \<and>
   map_of (clean_dataframe default_cleaning [(''n'', [FStr ''100000'', FNone, FStr ''1000000''])]) ''n''
     = Some [FStr ''100000'', FNone, FStr ''1000000''] \<and>
   data_types_of (clean_structured_data default_cleaning reference_ext counts_table) = Some [(''n'', ColInteger)] \<and>
   (\<exists>res. clean_structured_data default_cleaning reference_ext counts_table = Inr res \<and>
          map_of (r_missing_values res) ''n'' = Some (0, 0))"
proof -
  let ?vals = "[FStr ''100000'', FNone, FStr ''1000000'']"
  have ne: "td_columns counts_table \<noteq> []" "td_data counts_table \<noteq> []"
      and td: "td_data counts_table = [[CStr ''100000''], [CNone], [CStr ''1000000'']]"
    by (simp_all add: counts_table_def)
  have e: "enhanced_metadata reference_ext = (\<lambda>df types. Inr ())"
    by (simp add: reference_ext_def)
  have "\<exists>res. clean_structured_data default_cleaning reference_ext counts_table = Inr res"
    unfolding clean_structured_data_def using ne by (simp add: counts_frame e Let_def)
  then obtain res where res: "clean_structured_data default_cleaning reference_ext counts_table = Inr res"
    by blast
  have i: "infer_data_types default_cleaning"
    by (simp add: default_cleaning_def)
  have int: "infer_column_type reference_ext ''n'' ?vals = ColInteger"
      and conv: "to_int64 reference_ext ?vals = Inr [VInt 100000, VInt 0, VInt 1000000]"
    by (rule counts_is_integer; simp add: reference_ext_rejects reference_ext_counts)+
  from clean_structured_data_fields [OF res ne counts_frame]
  have types: "r_data_types res = [(''n'', ColInteger)]"
    by (simp add: i counts_cleaned infer_column_types_def int)
  have m: "map_of (clean_dataframe default_cleaning [(''n'', ?vals)]) ''n'' = Some ?vals"
    by (simp add: counts_cleaned)
  have t: "map_of (r_data_types res) ''n'' = Some ColInteger"
    by (simp add: types)
  from integer_column_missing_zero [OF res counts_frame m t conv]
  have "map_of (r_missing_values res) ''n'' = Some (0, 0)" by blast
  with res types td m counts_frame show ?thesis
    by (auto simp: data_types_of_def)
qed


end
